theory Spec2Isabelle
  imports Main "HOL-Library.Word"
begin

unbundle bit_operations_syntax

section \<open>Values, errors and the platform\<close>

text \<open>
  Byte arrays (\<^verbatim>\<open>Uint8Array\<close>, \<^verbatim>\<open>Buffer\<close>) are lists of 8-bit words. Dynamically typed
  values (\<^verbatim>\<open>any\<close>, the results of \<^verbatim>\<open>JSON.parse\<close>) are a datatype; the code never does
  arithmetic on a number, so the integral ones stand for all.
\<close>

type_synonym byte = "8 word"
type_synonym bytes = "byte list"

datatype jsval =
    JUndefined
  | JNull
  | JBool bool
  | JNum int
  | JStr string
  | JArr "jsval list"
  | JObj "(string \<times> jsval) list"

text \<open>
  The error classes of \<^verbatim>\<open>errors.ts\<close>, each with its message. \<open>Error\<close> is the plain
  \<^verbatim>\<open>new Error(...)\<close> of the source; \<open>Thrown\<close> is an exception raised by the platform
  (a \<^verbatim>\<open>TypeError\<close>, a rejected \<^verbatim>\<open>fetch\<close>, a \<^verbatim>\<open>SyntaxError\<close>) that the source
  lets through.
\<close>

datatype error =
    is_ConfigError: ConfigError string
  | is_SchemaError: SchemaError string
  | is_CryptoError: CryptoError string
  | is_RPCError: RPCError string
  | is_NotFoundError: NotFoundError string
  | is_Error: Error string
  | is_Thrown: Thrown string

text \<open>
  The functions of Node.js that the source calls are parameters of the model: the
  SHA-256 digest, \<^verbatim>\<open>Buffer.from(string, encoding)\<close>, \<^verbatim>\<open>Buffer.from\<close> on a value that is not
  a string (which may throw), \<^verbatim>\<open>buf.toString(encoding)\<close>, \<^verbatim>\<open>JSON.stringify\<close> (a string,
  or \<^verbatim>\<open>undefined\<close>), \<^verbatim>\<open>JSON.parse\<close> (which may throw) and AES-256-GCM: encryption of
  a plaintext under a key and a nonce gives the ciphertext and the tag, decryption throws
  when the tag does not verify. A thrown exception is \<open>Inl\<close> of its message.
\<close>

record node_lib =
  sha256_digest :: "bytes \<Rightarrow> bytes"
  string_to_bytes :: "string \<Rightarrow> string \<Rightarrow> bytes"
  nonstring_to_bytes :: "jsval \<Rightarrow> string \<Rightarrow> string + bytes"
  bytes_to_string :: "bytes \<Rightarrow> string \<Rightarrow> string"
  json_stringify :: "jsval \<Rightarrow> jsval"
  json_parse :: "string \<Rightarrow> string + jsval"
  aes_gcm_encrypt :: "bytes \<Rightarrow> bytes \<Rightarrow> bytes \<Rightarrow> string + bytes \<times> bytes"
  aes_gcm_decrypt :: "bytes \<Rightarrow> bytes \<Rightarrow> bytes \<Rightarrow> bytes \<Rightarrow> string + bytes"

text \<open>\<^verbatim>\<open>Buffer.from(value, encoding)\<close> on a value of any type.\<close>

definition buffer_from :: "node_lib \<Rightarrow> jsval \<Rightarrow> string \<Rightarrow> string + bytes" where
  "buffer_from lib v enc =
     (case v of
        JStr s \<Rightarrow> Inr (string_to_bytes lib s enc)
      | _ \<Rightarrow> nonstring_to_bytes lib v enc)"

section \<open>crypto/hashing.ts\<close>

datatype hash_input = Bytes bytes | Text string

definition sha256 :: "node_lib \<Rightarrow> hash_input \<Rightarrow> bytes" where
  "sha256 lib d =
     (let input = (case d of Text s \<Rightarrow> string_to_bytes lib s ''utf8'' | Bytes b \<Rightarrow> b)
      in sha256_digest lib input)"

definition toHex :: "node_lib \<Rightarrow> bytes \<Rightarrow> string" where
  "toHex lib bs = bytes_to_string lib bs ''hex''"

definition hashCommitment :: "node_lib \<Rightarrow> hash_input \<Rightarrow> string" where
  "hashCommitment lib d = toHex lib (sha256 lib d)"

section \<open>crypto/encryption.ts\<close>

record EncryptedPayload =
  alg :: string
  iv :: bytes
  ciphertext :: bytes
  tag :: bytes

text \<open>
  The type \<open>bytes\<close> already makes the key a \<^verbatim>\<open>Uint8Array\<close>, so the \<^verbatim>\<open>instanceof\<close> checks of
  \<^verbatim>\<open>ensureKey\<close> and \<^verbatim>\<open>normalizeKey\<close> cannot fail.
\<close>

definition ensureKey :: "bytes \<Rightarrow> error + unit" where
  "ensureKey key =
     (if length key \<noteq> 32 then Inl (CryptoError ''Key must be 32 bytes (256 bits)'')
      else Inr ())"

definition deriveKeyFromSeed :: "node_lib \<Rightarrow> bytes \<Rightarrow> bytes" where
  "deriveKeyFromSeed lib seed = sha256 lib (Bytes seed)"

definition normalizeKey :: "node_lib \<Rightarrow> bytes \<Rightarrow> bytes" where
  "normalizeKey lib seedOrKey =
     (if length seedOrKey = 32 then seedOrKey else deriveKeyFromSeed lib seedOrKey)"

text \<open>
  \<^verbatim>\<open>encryptPayload\<close> draws its nonce from \<^verbatim>\<open>randomBytes(12)\<close>; the value drawn is the
  argument \<open>nonce\<close>. Everything after \<^verbatim>\<open>ensureKey\<close> runs inside \<^verbatim>\<open>try\<close>, and whatever is
  thrown there comes out as a \<open>CryptoError\<close> with the message of what was thrown.
  \<^verbatim>\<open>aes_gcm_encrypt\<close> stands for \<^verbatim>\<open>createCipheriv\<close>, \<^verbatim>\<open>update\<close>, \<^verbatim>\<open>final\<close> and \<^verbatim>\<open>getAuthTag\<close>
  together, \<^verbatim>\<open>aes_gcm_decrypt\<close> for \<^verbatim>\<open>createDecipheriv\<close>, \<^verbatim>\<open>setAuthTag\<close>, \<^verbatim>\<open>update\<close> and
  \<^verbatim>\<open>final\<close>.
\<close>

definition encryptPayload :: "node_lib \<Rightarrow> bytes \<Rightarrow> jsval \<Rightarrow> bytes \<Rightarrow> error + EncryptedPayload" where
  "encryptPayload lib nonce data key =
     (case ensureKey key of
        Inl e \<Rightarrow> Inl e
      | Inr _ \<Rightarrow>
          (let json = json_stringify lib data in
           case buffer_from lib json ''utf8'' of
             Inl m \<Rightarrow> Inl (CryptoError (''encryptPayload failed: '' @ m))
           | Inr plain \<Rightarrow>
               (case aes_gcm_encrypt lib key nonce plain of
                  Inl m \<Rightarrow> Inl (CryptoError (''encryptPayload failed: '' @ m))
                | Inr (ct, tg) \<Rightarrow>
                    Inr \<lparr>alg = ''AES-GCM'', iv = nonce, ciphertext = ct, tag = tg\<rparr>)))"

definition decryptPayload :: "node_lib \<Rightarrow> EncryptedPayload \<Rightarrow> bytes \<Rightarrow> error + jsval" where
  "decryptPayload lib payload key =
     (case ensureKey key of
        Inl e \<Rightarrow> Inl e
      | Inr _ \<Rightarrow>
          if alg payload \<noteq> ''AES-GCM'' then Inl (CryptoError ''Unsupported algorithm'')
          else
            (case aes_gcm_decrypt lib key (iv payload) (ciphertext payload) (tag payload) of
               Inl m \<Rightarrow> Inl (CryptoError (''decryptPayload failed: '' @ m))
             | Inr decrypted \<Rightarrow>
                 (case json_parse lib (bytes_to_string lib decrypted ''utf8'') of
                    Inl m \<Rightarrow> Inl (CryptoError (''decryptPayload failed: '' @ m))
                  | Inr v \<Rightarrow> Inr v)))"

section \<open>types.ts, config and the outside world\<close>

type_synonym pubkey = string

record AccountMeta =
  pubkey :: "pubkey option"
  isSigner :: bool
  isWritable :: bool

record TransactionInstruction =
  ix_programId :: pubkey
  keys :: "AccountMeta list"
  data :: bytes

record Transaction =
  instructions :: "TransactionInstruction list"
  feePayer :: "pubkey option"
  recentBlockhash :: "string option"

record WalletAdapter =
  publicKey :: "pubkey option"
  signTransaction :: "(Transaction \<Rightarrow> string + Transaction) option"

record ZkPrimeConfig =
  rpcEndpoint :: string
  programId :: "string option"
  computeProgramId :: "string option"
  provingServiceUrl :: "string option"

record Connection =
  endpoint :: string
  conn_commitment :: string

record RequestInit =
  http_method :: string
  headers :: "(string \<times> string) list"
  body :: jsval

text \<open>A \<^verbatim>\<open>fetch\<close> response: the \<^verbatim>\<open>ok\<close> flag and what \<^verbatim>\<open>resp.json()\<close> resolves to.\<close>

record Response =
  ok :: bool
  json :: "string + jsval"

text \<open>
  What the outside world answers during one call: the random bytes, the clock, the
  coordinator behind \<^verbatim>\<open>fetch\<close> and the Solana client library, whose constructors
  \<^verbatim>\<open>new Connection(endpoint, {commitment})\<close> and \<^verbatim>\<open>new PublicKey(s)\<close> reject some arguments.
  \<open>Inl\<close> is a thrown exception or a rejected promise, with its message.
\<close>

record sys_env =
  randomBytes :: "nat \<Rightarrow> bytes"
  dateNow :: int
  fetch :: "string \<Rightarrow> RequestInit option \<Rightarrow> string + Response"
  newConnection :: "string \<Rightarrow> string \<Rightarrow> string + Connection"
  newPublicKey :: "string \<Rightarrow> string + pubkey"
  getLatestBlockhash :: "Connection \<Rightarrow> string \<Rightarrow> string + string"
  partialSign :: "Transaction \<Rightarrow> string list \<Rightarrow> string + Transaction"
  serialize :: "Transaction \<Rightarrow> string + bytes"
  sendRawTransaction :: "Connection \<Rightarrow> bytes \<Rightarrow> string + string"

text \<open>The requests that leave the process, in the order they are made.\<close>

datatype effect =
    NetGetLatestBlockhash Connection
  | NetSendRawTransaction Connection bytes
  | NetFetch string "RequestInit option"

section \<open>The two clients\<close>

datatype JobStatus = PENDING | RUNNING | COMPLETED | FAILED

fun status_name :: "JobStatus \<Rightarrow> string" where
  "status_name PENDING = ''PENDING''"
| "status_name RUNNING = ''RUNNING''"
| "status_name COMPLETED = ''COMPLETED''"
| "status_name FAILED = ''FAILED''"

record JobDefinition =
  name :: string
  version :: "string option"
  description :: "string option"
  inputSchema :: "jsval option"
  outputSchema :: "jsval option"

record JobRecord =
  job_id :: string
  job_owner :: string
  job_type :: string
  job_commitment :: string
  job_status :: JobStatus
  job_createdAt :: int
  job_resultRef :: "string option"

record SchemaField =
  field_name :: string
  field_type :: string

record PrivateSchema =
  schema_id :: string
  schema_name :: string
  schema_fields :: "SchemaField list"

record StateHandle =
  handle_id :: string
  handle_commitment :: string
  handle_owner :: string

text \<open>
  The mutable state: the schema registry of \<^verbatim>\<open>PrivateStateClient\<close>, the job registry and the
  mock job store of \<^verbatim>\<open>ConfidentialComputeClient\<close>, the connection cache of
  \<^verbatim>\<open>solana/connection.ts\<close>, and the log of the requests sent so far.
\<close>

record sdk_state =
  schemaRegistry :: "string \<rightharpoonup> PrivateSchema"
  registry :: "string \<rightharpoonup> JobDefinition"
  mockJobs :: "string \<rightharpoonup> JobRecord"
  cache :: "string \<rightharpoonup> Connection"
  effects :: "effect list"

definition initial_state :: sdk_state where
  "initial_state =
     \<lparr>schemaRegistry = Map.empty, registry = Map.empty, mockJobs = Map.empty,
      cache = Map.empty, effects = []\<rparr>"

subsection \<open>JavaScript's truthiness and property access\<close>

fun truthy :: "jsval \<Rightarrow> bool" where
  "truthy JUndefined = False"
| "truthy JNull = False"
| "truthy (JBool b) = b"
| "truthy (JNum n) = (n \<noteq> 0)"
| "truthy (JStr s) = (s \<noteq> [])"
| "truthy (JArr _) = True"
| "truthy (JObj _) = True"

text \<open>An optional string of the configuration is truthy when it is set and not empty.\<close>

fun configured :: "string option \<Rightarrow> bool" where
  "configured None = False"
| "configured (Some s) = (s \<noteq> [])"

text \<open>
  \<^verbatim>\<open>v.k\<close> for the member names the source reads (\<^verbatim>\<open>status\<close>, \<^verbatim>\<open>iv\<close>, \<^verbatim>\<open>ciphertext\<close>,
  \<^verbatim>\<open>tag\<close>): a \<^verbatim>\<open>TypeError\<close> on \<^verbatim>\<open>null\<close> and \<^verbatim>\<open>undefined\<close>, the member of an object, and
  \<^verbatim>\<open>undefined\<close> where there is no such member, as on a number, a string or an array. The
  message of the \<^verbatim>\<open>TypeError\<close> has the member name in single quotes.
\<close>

fun get_prop :: "jsval \<Rightarrow> string \<Rightarrow> string + jsval" where
  "get_prop JUndefined k =
     Inl (''Cannot read properties of undefined (reading '' @ CHR 0x27 # k @ CHR 0x27 # '')'')"
| "get_prop JNull k =
     Inl (''Cannot read properties of null (reading '' @ CHR 0x27 # k @ CHR 0x27 # '')'')"
| "get_prop (JObj kvs) k = Inr (case map_of kvs k of None \<Rightarrow> JUndefined | Some v \<Rightarrow> v)"
| "get_prop _ k = Inr JUndefined"

subsection \<open>solana/connection.ts and solana/transactions.ts\<close>

text \<open>
  \<^verbatim>\<open>getConnection\<close>: the cached connection of the endpoint, or a new one, which is then
  cached. When \<^verbatim>\<open>new Connection\<close> throws (a \<^verbatim>\<open>TypeError\<close> for an endpoint that does not
  begin with \<^verbatim>\<open>http:\<close> or \<^verbatim>\<open>https:\<close>), nothing has been cached and the exception goes
  to the caller.
\<close>

definition getConnection ::
  "sys_env \<Rightarrow> string \<Rightarrow> sdk_state \<Rightarrow> (string + Connection) \<times> sdk_state" where
  "getConnection env ep st =
     (case cache st ep of
        Some existing \<Rightarrow> (Inr existing, st)
      | None \<Rightarrow>
          (case newConnection env ep ''confirmed'' of
             Inl m \<Rightarrow> (Inl m, st)
           | Inr conn \<Rightarrow> (Inr conn, st\<lparr>cache := (cache st)(ep \<mapsto> conn)\<rparr>)))"

definition log_effect :: "effect \<Rightarrow> sdk_state \<Rightarrow> sdk_state" where
  "log_effect e st = st\<lparr>effects := effects st @ [e]\<rparr>"

definition buildAndSendTransaction ::
  "sys_env \<Rightarrow> Connection \<Rightarrow> WalletAdapter option \<Rightarrow> TransactionInstruction list \<Rightarrow>
   string list \<Rightarrow> sdk_state \<Rightarrow> (error + string) \<times> sdk_state" where
  "buildAndSendTransaction env conn walletAdapter ixs additionalSigners st =
     (case walletAdapter of
        None \<Rightarrow> (Inl (RPCError ''walletAdapter with publicKey required''), st)
      | Some w \<Rightarrow>
          (case publicKey w of
             None \<Rightarrow> (Inl (RPCError ''walletAdapter with publicKey required''), st)
           | Some pk \<Rightarrow>
               (let st1 = log_effect (NetGetLatestBlockhash conn) st in
                case getLatestBlockhash env conn ''finalized'' of
                  Inl m \<Rightarrow> (Inl (Thrown m), st1)
                | Inr blockhash \<Rightarrow>
                    (let tx = \<lparr>instructions = ixs, feePayer = Some pk,
                               recentBlockhash = Some blockhash\<rparr> in
                     case signTransaction w of
                       Some signFn \<Rightarrow>
                         (case signFn tx of
                            Inl m \<Rightarrow> (Inl (Thrown m), st1)
                          | Inr signedTx \<Rightarrow>
                              (case (if additionalSigners \<noteq> []
                                     then partialSign env signedTx additionalSigners
                                     else Inr signedTx) of
                                 Inl m \<Rightarrow> (Inl (Thrown m), st1)
                               | Inr signedTx' \<Rightarrow>
                                   (case serialize env signedTx' of
                                      Inl m \<Rightarrow> (Inl (Thrown m), st1)
                                    | Inr raw \<Rightarrow>
                                        (let st2 = log_effect (NetSendRawTransaction conn raw) st1 in
                                         case sendRawTransaction env conn raw of
                                           Inl m \<Rightarrow> (Inl (Thrown m), st2)
                                         | Inr sig \<Rightarrow> (Inr sig, st2)))))
                     | None \<Rightarrow>
                         if additionalSigners \<noteq> [] then
                           (case partialSign env tx additionalSigners of
                              Inl m \<Rightarrow> (Inl (Thrown m), st1)
                            | Inr _ \<Rightarrow>
                                (Inl (RPCError
                                   ''walletAdapter.signTransaction is required to sign transactions''),
                                 st1))
                         else (Inl (RPCError ''walletAdapter must provide signTransaction''), st1)))))"

definition createInstruction ::
  "sys_env \<Rightarrow> string \<Rightarrow> bytes \<Rightarrow> AccountMeta list \<Rightarrow> string + TransactionInstruction" where
  "createInstruction env pid dat ks =
     (case newPublicKey env pid of
        Inl m \<Rightarrow> Inl m
      | Inr pk \<Rightarrow> Inr \<lparr>ix_programId = pk, keys = ks, data = dat\<rparr>)"

text \<open>
  \<^verbatim>\<open>createState\<close>, \<^verbatim>\<open>updateState\<close> and \<^verbatim>\<open>submitJob\<close> send their instruction with the same
  four statements: \<^verbatim>\<open>getConnection\<close>, the JSON of the operation encoded as UTF-8,
  \<^verbatim>\<open>createInstruction\<close> with the wallet's public key as the one signer, and
  \<^verbatim>\<open>buildAndSendTransaction\<close>.
\<close>

definition sendOperation ::
  "node_lib \<Rightarrow> sys_env \<Rightarrow> ZkPrimeConfig \<Rightarrow> string \<Rightarrow> WalletAdapter \<Rightarrow> jsval \<Rightarrow>
   sdk_state \<Rightarrow> (error + string) \<times> sdk_state" where
  "sendOperation lib env cfg pid w operation st =
     (case getConnection env (rpcEndpoint cfg) st of
        (Inl m, st1) \<Rightarrow> (Inl (Thrown m), st1)
      | (Inr conn, st1) \<Rightarrow>
          (case buffer_from lib (json_stringify lib operation) ''utf8'' of
             Inl m \<Rightarrow> (Inl (Thrown m), st1)
           | Inr dat \<Rightarrow>
               (case createInstruction env pid dat
                       [\<lparr>pubkey = publicKey w, isSigner = True, isWritable = False\<rparr>] of
                  Inl m \<Rightarrow> (Inl (Thrown m), st1)
                | Inr ix \<Rightarrow> buildAndSendTransaction env conn (Some w) [ix] [] st1)))"

subsection \<open>confidentialCompute/confidentialComputeClient.ts\<close>

record SubmitJobResult =
  jobId :: string
  txSig :: "string option"

definition registerJobType :: "JobDefinition \<Rightarrow> sdk_state \<Rightarrow> (error + JobDefinition) \<times> sdk_state" where
  "registerJobType d st =
     (if name d = [] then (Inl (Error ''job name required''), st)
      else (Inr d, st\<lparr>registry := (registry st)(name d \<mapsto> d)\<rparr>))"

text \<open>
  \<^verbatim>\<open>submitJob\<close>. The \<^verbatim>\<open>fetch\<close> to the coordinator sits in a \<^verbatim>\<open>try\<close> with an empty
  \<^verbatim>\<open>catch\<close> and its response is not read: the request is logged and nothing else of it
  remains.
\<close>

definition submitJob ::
  "node_lib \<Rightarrow> sys_env \<Rightarrow> ZkPrimeConfig \<Rightarrow> string \<Rightarrow> string \<Rightarrow> jsval \<Rightarrow> bytes \<Rightarrow>
   WalletAdapter option \<Rightarrow> sdk_state \<Rightarrow> (error + SubmitJobResult) \<times> sdk_state" where
  "submitJob lib env cfg jobType owner input symmetricKeySeed walletAdapter st =
     (case registry st jobType of
        None \<Rightarrow> (Inl (NotFoundError (''job type '' @ jobType @ '' not registered'')), st)
      | Some d \<Rightarrow>
          (let key = normalizeKey lib symmetricKeySeed in
           case encryptPayload lib (randomBytes env 12) input key of
             Inl e \<Rightarrow> (Inl e, st)
           | Inr encrypted \<Rightarrow>
               (let commitment = hashCommitment lib (Bytes (ciphertext encrypted));
                    jid = take 32 (hashCommitment lib (Text (commitment @ owner)))
                in
                case (if configured (computeProgramId cfg) \<and> walletAdapter \<noteq> None then
                        (case sendOperation lib env cfg (the (computeProgramId cfg))
                                (the walletAdapter)
                                (JObj [(''op'', JStr ''submit_job''), (''jobId'', JStr jid),
                                       (''commitment'', JStr commitment),
                                       (''type'', JStr jobType)]) st of
                           (Inl e, st1) \<Rightarrow> (Inl e, st1)
                         | (Inr sig, st1) \<Rightarrow> (Inr (Some sig), st1))
                      else (Inr None, st)) of
                  (Inl e, st1) \<Rightarrow> (Inl e, st1)
                | (Inr sig, st1) \<Rightarrow>
                    if configured (provingServiceUrl cfg) then
                      (let url = the (provingServiceUrl cfg) @ ''/submit-job'';
                           request = JObj
                             [(''jobId'', JStr jid), (''jobType'', JStr jobType),
                              (''owner'', JStr owner),
                              (''iv'', JStr (bytes_to_string lib (iv encrypted) ''base64'')),
                              (''tag'', JStr (bytes_to_string lib (tag encrypted) ''base64'')),
                              (''ciphertext'',
                                 JStr (bytes_to_string lib (ciphertext encrypted) ''base64''))];
                           init = \<lparr>http_method = ''POST'',
                                   headers = [(''content-type'', ''application/json'')],
                                   body = json_stringify lib request\<rparr>
                       in (Inr \<lparr>jobId = jid, txSig = sig\<rparr>,
                           log_effect (NetFetch url (Some init)) st1))
                    else
                      (Inr \<lparr>jobId = jid, txSig = sig\<rparr>,
                       st1\<lparr>mockJobs := (mockJobs st1)(jid \<mapsto>
                             \<lparr>job_id = jid, job_owner = owner, job_type = jobType,
                              job_commitment = commitment, job_status = PENDING,
                              job_createdAt = dateNow env, job_resultRef = None\<rparr>)\<rparr>))))"

text \<open>
  \<^verbatim>\<open>getJobStatus\<close>. Whatever is thrown inside the \<^verbatim>\<open>try\<close> (a rejected \<^verbatim>\<open>fetch\<close>, a response
  that is not \<^verbatim>\<open>ok\<close>, a body that is not JSON, the \<^verbatim>\<open>TypeError\<close> of \<^verbatim>\<open>json.status\<close> on
  \<^verbatim>\<open>null\<close>) is caught, and the mock store answers instead.
\<close>

definition getJobStatus ::
  "sys_env \<Rightarrow> ZkPrimeConfig \<Rightarrow> string \<Rightarrow> sdk_state \<Rightarrow> (error + jsval) \<times> sdk_state" where
  "getJobStatus env cfg jid st =
     (let url = the (provingServiceUrl cfg) @ ''/job-status/'' @ jid;
          st1 = (if configured (provingServiceUrl cfg) then log_effect (NetFetch url None) st
                 else st);
          answer =
            (if configured (provingServiceUrl cfg) then
               (case fetch env url None of
                  Inl m \<Rightarrow> None
                | Inr resp \<Rightarrow>
                    if \<not> ok resp then None
                    else
                      (case json resp of
                         Inl m \<Rightarrow> None
                       | Inr j \<Rightarrow>
                           (case get_prop j ''status'' of
                              Inl m \<Rightarrow> None
                            | Inr s \<Rightarrow> Some (if truthy s then s else JStr ''PENDING''))))
             else None)
      in
      case answer of
        Some s \<Rightarrow> (Inr s, st1)
      | None \<Rightarrow>
          (case mockJobs st jid of
             None \<Rightarrow> (Inl (NotFoundError ''job not found''), st1)
           | Some job \<Rightarrow> (Inr (JStr (status_name (job_status job))), st1)))"

text \<open>\<^verbatim>\<open>v || ''\<close>, which is also what the local function \<^verbatim>\<open>epOr\<close> of \<^verbatim>\<open>fetchResult\<close> returns.\<close>

definition epOr :: "jsval \<Rightarrow> jsval" where
  "epOr v = (if truthy v then v else JStr [])"

text \<open>
  Both paths of \<^verbatim>\<open>fetchResult\<close> build the envelope with the same object literal: the tag
  \<^verbatim>\<open>'AES-GCM'\<close> and the members \<^verbatim>\<open>iv\<close>, \<^verbatim>\<open>ciphertext\<close> and \<^verbatim>\<open>tag\<close> of the parsed JSON,
  each decoded from base64, in this order. The mock path passes its \<^verbatim>\<open>iv\<close> through
  \<^verbatim>\<open>epOr(payload.iv || '')\<close> first; \<open>guard\<close> is that step.
\<close>

definition read_envelope ::
  "node_lib \<Rightarrow> (jsval \<Rightarrow> jsval) \<Rightarrow> jsval \<Rightarrow> string + EncryptedPayload" where
  "read_envelope lib guard obj =
     (case get_prop obj ''iv'' of
        Inl m \<Rightarrow> Inl m
      | Inr jiv \<Rightarrow>
     (case buffer_from lib (guard jiv) ''base64'' of
        Inl m \<Rightarrow> Inl m
      | Inr biv \<Rightarrow>
     (case get_prop obj ''ciphertext'' of
        Inl m \<Rightarrow> Inl m
      | Inr jct \<Rightarrow>
     (case buffer_from lib jct ''base64'' of
        Inl m \<Rightarrow> Inl m
      | Inr bct \<Rightarrow>
     (case get_prop obj ''tag'' of
        Inl m \<Rightarrow> Inl m
      | Inr jtag \<Rightarrow>
     (case buffer_from lib jtag ''base64'' of
        Inl m \<Rightarrow> Inl m
      | Inr btag \<Rightarrow>
          Inr \<lparr>alg = ''AES-GCM'', iv = biv, ciphertext = bct, tag = btag\<rparr>))))))"

definition fetchResult ::
  "node_lib \<Rightarrow> sys_env \<Rightarrow> ZkPrimeConfig \<Rightarrow> string \<Rightarrow> bytes \<Rightarrow> sdk_state \<Rightarrow>
   (error + jsval) \<times> sdk_state" where
  "fetchResult lib env cfg jid symmetricKeySeed st =
     (if configured (provingServiceUrl cfg) then
        (let url = the (provingServiceUrl cfg) @ ''/job-result/'' @ jid;
             st1 = log_effect (NetFetch url None) st
         in
         case fetch env url None of
           Inl m \<Rightarrow> (Inl (Thrown m), st1)
         | Inr resp \<Rightarrow>
             if \<not> ok resp then (Inl (NotFoundError ''result not found''), st1)
             else
               (case json resp of
                  Inl m \<Rightarrow> (Inl (Thrown m), st1)
                | Inr j \<Rightarrow>
                    (case read_envelope lib (\<lambda>v. v) j of
                       Inl m \<Rightarrow> (Inl (Thrown m), st1)
                     | Inr payload \<Rightarrow>
                         (let key = normalizeKey lib symmetricKeySeed
                          in (decryptPayload lib payload key, st1)))))
      else
        (case mockJobs st jid of
           None \<Rightarrow> (Inl (NotFoundError ''result not available''), st)
         | Some job \<Rightarrow>
             if \<not> configured (job_resultRef job)
             then (Inl (NotFoundError ''result not available''), st)
             else
               (let decoded = string_to_bytes lib (the (job_resultRef job)) ''base64'' in
                case json_parse lib (bytes_to_string lib decoded ''utf8'') of
                  Inl m \<Rightarrow> (Inl (Thrown m), st)
                | Inr payload \<Rightarrow>
                    (case read_envelope lib (\<lambda>v. epOr (epOr v)) payload of
                       Inl m \<Rightarrow> (Inl (Thrown m), st)
                     | Inr ep \<Rightarrow>
                         (let key = deriveKeyFromSeed lib symmetricKeySeed
                          in (decryptPayload lib ep key, st))))))"

text \<open>\<^verbatim>\<open>_setMockResult\<close>, the setter "for tests only".\<close>

definition setMockResult ::
  "node_lib \<Rightarrow> string \<Rightarrow> EncryptedPayload \<Rightarrow> sdk_state \<Rightarrow> (error + unit) \<times> sdk_state" where
  "setMockResult lib jid encryptedPayload st =
     (case mockJobs st jid of
        None \<Rightarrow> (Inl (NotFoundError ''job not found''), st)
      | Some record \<Rightarrow>
          (let payload = JObj
                 [(''iv'', JStr (bytes_to_string lib (iv encryptedPayload) ''base64'')),
                  (''tag'', JStr (bytes_to_string lib (tag encryptedPayload) ''base64'')),
                  (''ciphertext'',
                     JStr (bytes_to_string lib (ciphertext encryptedPayload) ''base64''))]
           in
           case buffer_from lib (json_stringify lib payload) ''utf8'' of
             Inl m \<Rightarrow> (Inl (Thrown m), st)
           | Inr serialized \<Rightarrow>
               (Inr (),
                st\<lparr>mockJobs := (mockJobs st)(jid \<mapsto>
                      record\<lparr>job_resultRef := Some (bytes_to_string lib serialized ''base64''),
                             job_status := COMPLETED\<rparr>)\<rparr>)))"

subsection \<open>privateState/privateStateClient.ts\<close>

definition defineSchema :: "PrivateSchema \<Rightarrow> sdk_state \<Rightarrow> (error + PrivateSchema) \<times> sdk_state" where
  "defineSchema schema st =
     (if schema_id schema = [] \<or> schema_name schema = [] \<or> schema_fields schema = []
      then (Inl (SchemaError ''invalid schema''), st)
      else (Inr schema, st\<lparr>schemaRegistry := (schemaRegistry st)(schema_id schema \<mapsto> schema)\<rparr>))"

definition getSchema :: "string \<Rightarrow> sdk_state \<Rightarrow> error + PrivateSchema" where
  "getSchema schemaId st =
     (case schemaRegistry st schemaId of
        None \<Rightarrow> Inl (NotFoundError (''schema '' @ schemaId @ '' not found''))
      | Some s \<Rightarrow> Inr s)"

definition createState ::
  "node_lib \<Rightarrow> sys_env \<Rightarrow> ZkPrimeConfig \<Rightarrow> string \<Rightarrow> string \<Rightarrow> jsval \<Rightarrow> bytes \<Rightarrow>
   WalletAdapter option \<Rightarrow> sdk_state \<Rightarrow> (error + StateHandle \<times> EncryptedPayload) \<times> sdk_state" where
  "createState lib env cfg schemaId owner plain symmetricKeySeed walletAdapter st =
     (case getSchema schemaId st of
        Inl e \<Rightarrow> (Inl e, st)
      | Inr schema \<Rightarrow>
          (let key = normalizeKey lib symmetricKeySeed in
           case encryptPayload lib (randomBytes env 12) plain key of
             Inl e \<Rightarrow> (Inl e, st)
           | Inr encrypted \<Rightarrow>
               (let commitment = hashCommitment lib (Bytes (ciphertext encrypted)) in
                case (if configured (programId cfg) \<and> walletAdapter \<noteq> None then
                        sendOperation lib env cfg (the (programId cfg)) (the walletAdapter)
                          (JObj [(''op'', JStr ''create''), (''commitment'', JStr commitment)]) st
                      else (Inr [], st)) of
                  (Inl e, st1) \<Rightarrow> (Inl e, st1)
                | (Inr _, st1) \<Rightarrow>
                    (let stateId = take 32 (hashCommitment lib (Text (commitment @ owner)));
                         handle = \<lparr>handle_id = stateId, handle_commitment = commitment,
                                   handle_owner = owner\<rparr>
                     in (Inr (handle, encrypted), st1)))))"

text \<open>
  \<^verbatim>\<open>updateState\<close>: \<^verbatim>\<open>params.stateId ?? ...\<close> takes the caller's state id unless it is
  \<^verbatim>\<open>null\<close> or \<^verbatim>\<open>undefined\<close>, here \<open>None\<close>.
\<close>

definition updateState ::
  "node_lib \<Rightarrow> sys_env \<Rightarrow> ZkPrimeConfig \<Rightarrow> string \<Rightarrow> string \<Rightarrow> jsval \<Rightarrow> bytes \<Rightarrow>
   string option \<Rightarrow> string \<Rightarrow> WalletAdapter option \<Rightarrow> sdk_state \<Rightarrow>
   (error + StateHandle \<times> EncryptedPayload) \<times> sdk_state" where
  "updateState lib env cfg schemaId owner plain symmetricKeySeed stateId previousCommitment
       walletAdapter st =
     (case getSchema schemaId st of
        Inl e \<Rightarrow> (Inl e, st)
      | Inr schema \<Rightarrow>
          (let key = normalizeKey lib symmetricKeySeed in
           case encryptPayload lib (randomBytes env 12) plain key of
             Inl e \<Rightarrow> (Inl e, st)
           | Inr encrypted \<Rightarrow>
               (let newCommitment = hashCommitment lib (Bytes (ciphertext encrypted)) in
                case (if configured (programId cfg) \<and> walletAdapter \<noteq> None then
                        sendOperation lib env cfg (the (programId cfg)) (the walletAdapter)
                          (JObj [(''op'', JStr ''update''), (''prev'', JStr previousCommitment),
                                 (''next'', JStr newCommitment)]) st
                      else (Inr [], st)) of
                  (Inl e, st1) \<Rightarrow> (Inl e, st1)
                | (Inr _, st1) \<Rightarrow>
                    (let handle =
                           \<lparr>handle_id =
                              (case stateId of
                                 Some sid \<Rightarrow> sid
                               | None \<Rightarrow> take 32 (hashCommitment lib (Text (newCommitment @ owner)))),
                            handle_commitment = newCommitment, handle_owner = owner\<rparr>
                     in (Inr (handle, encrypted), st1)))))"

text \<open>
  \<^verbatim>\<open>getStateCommitment\<close>: \<open>None\<close> is \<^verbatim>\<open>null\<close>. With a program id the connection is looked
  up with \<^verbatim>\<open>getConnection\<close> (and cached), and nothing is read from it; what
  \<^verbatim>\<open>getConnection\<close> throws rejects the call.
\<close>

definition getStateCommitment ::
  "sys_env \<Rightarrow> ZkPrimeConfig \<Rightarrow> string \<Rightarrow> sdk_state \<Rightarrow>
   (error + string option) \<times> sdk_state" where
  "getStateCommitment env cfg stateId st =
     (if \<not> configured (programId cfg) then (Inr None, st)
      else (case getConnection env (rpcEndpoint cfg) st of
              (Inl m, st1) \<Rightarrow> (Inl (Thrown m), st1)
            | (Inr conn, st1) \<Rightarrow> (Inr None, st1)))"

definition decryptWithSeed :: "node_lib \<Rightarrow> EncryptedPayload \<Rightarrow> bytes \<Rightarrow> error + jsval" where
  "decryptWithSeed lib encrypted seedOrKey =
     (let key = normalizeKey lib seedOrKey in decryptPayload lib encrypted key)"

subsection \<open>Sequences of calls on the job manager\<close>

text \<open>
  The public methods of \<^verbatim>\<open>ConfidentialComputeClient\<close> as operations, each with the
  arguments of the call and what the outside world answers during it. A call that throws
  leaves the state as it is at the throw.
\<close>

datatype cc_op =
    OpRegisterJobType JobDefinition
  | OpSubmitJob sys_env string string jsval bytes "WalletAdapter option"
  | OpGetJobStatus sys_env string
  | OpFetchResult sys_env string bytes
  | OpSetMockResult string EncryptedPayload

fun step :: "node_lib \<Rightarrow> ZkPrimeConfig \<Rightarrow> cc_op \<Rightarrow> sdk_state \<Rightarrow> sdk_state" where
  "step lib cfg (OpRegisterJobType d) st = snd (registerJobType d st)"
| "step lib cfg (OpSubmitJob env jobType owner input seed w) st =
     snd (submitJob lib env cfg jobType owner input seed w st)"
| "step lib cfg (OpGetJobStatus env jid) st = snd (getJobStatus env cfg jid st)"
| "step lib cfg (OpFetchResult env jid seed) st = snd (fetchResult lib env cfg jid seed st)"
| "step lib cfg (OpSetMockResult jid ep) st = snd (setMockResult lib jid ep st)"

fun run :: "node_lib \<Rightarrow> ZkPrimeConfig \<Rightarrow> sdk_state \<Rightarrow> cc_op list \<Rightarrow> sdk_state" where
  "run lib cfg st [] = st"
| "run lib cfg st (x # xs) = run lib cfg (step lib cfg x st) xs"

section \<open>What the specification says, and what is assumed of the platform\<close>

text \<open>
  The specification's id derivation, \<^verbatim>\<open>truncate(hash(commitment ++ owner), 32_chars)\<close>, in
  its own words, to compare the two derivations of the source with.
\<close>

definition spec_derive_id :: "node_lib \<Rightarrow> string \<Rightarrow> string \<Rightarrow> string" where
  "spec_derive_id lib commitment owner = take 32 (hashCommitment lib (Text (commitment @ owner)))"

text \<open>The digest has 32 bytes.\<close>

definition digest_32 :: "node_lib \<Rightarrow> bool" where
  "digest_32 lib \<longleftrightarrow> (\<forall>bs. length (sha256_digest lib bs) = 32)"

text \<open>The hexadecimal encoding writes two characters for each byte.\<close>

definition hex_doubles :: "node_lib \<Rightarrow> bool" where
  "hex_doubles lib \<longleftrightarrow> (\<forall>bs. length (bytes_to_string lib bs ''hex'') = 2 * length bs)"

text \<open>
  AES-256-GCM decrypts what it encrypted: under a 32-byte key and a 96-bit nonce,
  encryption succeeds, and decryption of its ciphertext and tag under the same key and
  nonce gives the plaintext back.
\<close>

definition aead_correct :: "node_lib \<Rightarrow> bool" where
  "aead_correct lib \<longleftrightarrow>
     (\<forall>k n p. length k = 32 \<and> length n = 12 \<longrightarrow>
        (\<exists>c t. aes_gcm_encrypt lib k n p = Inr (c, t) \<and> aes_gcm_decrypt lib k n c t = Inr p))"

text \<open>Bit \<open>i\<close> of a byte array, counted from the low bit of the first byte, inverted.\<close>

definition flip_bit_at :: "nat \<Rightarrow> bytes \<Rightarrow> bytes" where
  "flip_bit_at i bs = bs[i div 8 := flip_bit (i mod 8) (bs ! (i div 8))]"

text \<open>
  AES-256-GCM authenticates: once one bit of the nonce, of the ciphertext or of the tag
  of an encryption has been inverted, decryption under the same key throws.
\<close>

definition aead_authentic :: "node_lib \<Rightarrow> bool" where
  "aead_authentic lib \<longleftrightarrow>
     (\<forall>k n p c t i. length k = 32 \<and> aes_gcm_encrypt lib k n p = Inr (c, t) \<longrightarrow>
        (i < 8 * length n \<longrightarrow> isl (aes_gcm_decrypt lib k (flip_bit_at i n) c t)) \<and>
        (i < 8 * length c \<longrightarrow> isl (aes_gcm_decrypt lib k n (flip_bit_at i c) t)) \<and>
        (i < 8 * length t \<longrightarrow> isl (aes_gcm_decrypt lib k n c (flip_bit_at i t))))"

text \<open>
  A value is JSON-serializable when \<^verbatim>\<open>JSON.stringify\<close> gives a string for it and
  \<^verbatim>\<open>JSON.parse\<close> gives the value back from the UTF-8 encoding of that string. (For
  \<^verbatim>\<open>undefined\<close>, \<^verbatim>\<open>JSON.stringify\<close> gives no string; \<^verbatim>\<open>NaN\<close> comes back as \<^verbatim>\<open>null\<close>.)
\<close>

definition json_serializable :: "node_lib \<Rightarrow> jsval \<Rightarrow> bool" where
  "json_serializable lib v =
     (case json_stringify lib v of
        JStr s \<Rightarrow>
          json_parse lib (bytes_to_string lib (string_to_bytes lib s ''utf8'') ''utf8'') = Inr v
      | _ \<Rightarrow> False)"

text \<open>
  What \<^verbatim>\<open>JSON.stringify\<close> writes, \<^verbatim>\<open>JSON.parse\<close> reads: it does not throw on the UTF-8
  round trip of a text that \<^verbatim>\<open>JSON.stringify\<close> returned.
\<close>

definition json_text_parses :: "node_lib \<Rightarrow> bool" where
  "json_text_parses lib \<longleftrightarrow>
     (\<forall>v s. json_stringify lib v = JStr s \<longrightarrow>
        \<not> isl (json_parse lib
                 (bytes_to_string lib (string_to_bytes lib s ''utf8'') ''utf8'')))"

text \<open>
  The codecs behind the stored result reference lose nothing: base64 decodes what it
  encoded and gives a non-empty string for a non-empty buffer, and an object of the three
  strings \<^verbatim>\<open>iv\<close>, \<^verbatim>\<open>tag\<close> and \<^verbatim>\<open>ciphertext\<close> is JSON-serializable, with a text that is not
  empty.
\<close>

definition codecs_lossless :: "node_lib \<Rightarrow> bool" where
  "codecs_lossless lib \<longleftrightarrow>
     (\<forall>bs. string_to_bytes lib (bytes_to_string lib bs ''base64'') ''base64'' = bs) \<and>
     (\<forall>bs. bs \<noteq> [] \<longrightarrow> bytes_to_string lib bs ''base64'' \<noteq> []) \<and>
     (\<forall>a b c. \<exists>s.
        json_stringify lib
          (JObj [(''iv'', JStr a), (''tag'', JStr b), (''ciphertext'', JStr c)]) = JStr s \<and>
        string_to_bytes lib s ''utf8'' \<noteq> [] \<and>
        json_parse lib (bytes_to_string lib (string_to_bytes lib s ''utf8'') ''utf8'') =
          Inr (JObj [(''iv'', JStr a), (''tag'', JStr b), (''ciphertext'', JStr c)]))"

text \<open>
  One instruction is accepted: where the call sends it, that is with a program id
  configured and a wallet adapter given, sending this operation from this state returns a
  signature. Nothing is said of any other operation or state.
\<close>

definition instruction_accepted ::
  "node_lib \<Rightarrow> sys_env \<Rightarrow> ZkPrimeConfig \<Rightarrow> string option \<Rightarrow> WalletAdapter option \<Rightarrow>
   jsval \<Rightarrow> sdk_state \<Rightarrow> bool" where
  "instruction_accepted lib env cfg pid w operation st \<longleftrightarrow>
     (configured pid \<and> w \<noteq> None \<longrightarrow>
        \<not> isl (fst (sendOperation lib env cfg (the pid) (the w) operation st)))"

definition fails_with_CryptoError :: "error + 'a \<Rightarrow> bool" where
  "fails_with_CryptoError r = (case r of Inl e \<Rightarrow> is_CryptoError e | Inr _ \<Rightarrow> False)"

definition one_bit_altered :: "EncryptedPayload \<Rightarrow> EncryptedPayload \<Rightarrow> bool" where
  "one_bit_altered q q' \<longleftrightarrow>
     (\<exists>i. (i < 8 * length (iv q) \<and> q' = q\<lparr>iv := flip_bit_at i (iv q)\<rparr>)
        \<or> (i < 8 * length (ciphertext q) \<and> q' = q\<lparr>ciphertext := flip_bit_at i (ciphertext q)\<rparr>)
        \<or> (i < 8 * length (tag q) \<and> q' = q\<lparr>tag := flip_bit_at i (tag q)\<rparr>))"

text \<open>A record of the mock store is pending without a result, or completed with one.\<close>

definition mock_record_ok :: "JobRecord \<Rightarrow> bool" where
  "mock_record_ok r \<longleftrightarrow>
     (job_status r = PENDING \<and> job_resultRef r = None) \<or>
     (job_status r = COMPLETED \<and> job_resultRef r \<noteq> None)"

section \<open>A small platform to run the model on\<close>

text \<open>
  Stand-ins for the platform's functions, simple enough to evaluate and to satisfy what is
  assumed above: a digest that pads or cuts to 32 bytes and adds one to each, text and
  base64 as one character per byte, hexadecimal as it is, a JSON that writes strings and
  objects of strings with length prefixes, and a cipher that adds the first key byte to
  each byte and whose tag is the shifted nonce and ciphertext.
\<close>

definition toy_digest :: "bytes \<Rightarrow> bytes" where
  "toy_digest bs = map (\<lambda>b. b + 1) (take 32 (bs @ replicate 32 0))"

definition hex_digit :: "nat \<Rightarrow> char" where
  "hex_digit n = ''0123456789abcdef'' ! n"

definition toy_hex :: "bytes \<Rightarrow> string" where
  "toy_hex bs = concat (map (\<lambda>b. [hex_digit (unat b div 16), hex_digit (unat b mod 16)]) bs)"

definition toy_string_to_bytes :: "string \<Rightarrow> string \<Rightarrow> bytes" where
  "toy_string_to_bytes s enc = map (\<lambda>c. of_char c) s"

definition toy_bytes_to_string :: "bytes \<Rightarrow> string \<Rightarrow> string" where
  "toy_bytes_to_string bs enc =
     (if enc = ''hex'' then toy_hex bs else map (\<lambda>b. char_of (unat b)) bs)"

definition frame :: "string \<Rightarrow> string" where
  "frame s = replicate (length s) (CHR ''1'') @ CHR ''0'' # s"

definition unframe :: "string \<Rightarrow> string \<times> string" where
  "unframe t =
     (let n = length (takeWhile (\<lambda>c. c = CHR ''1'') t)
      in (take n (drop (Suc n) t), drop (Suc n + n) t))"

fun parse_frames :: "nat \<Rightarrow> string \<Rightarrow> (string \<times> jsval) list" where
  "parse_frames 0 t = []"
| "parse_frames (Suc f) t =
     (if t = [] then []
      else (case unframe t of
              (k, r) \<Rightarrow> (case unframe r of (s, r') \<Rightarrow> (k, JStr s) # parse_frames f r')))"

fun frame_member :: "string \<times> jsval \<Rightarrow> string option" where
  "frame_member (k, JStr s) = Some (frame k @ frame s)"
| "frame_member (k, _) = None"

definition toy_json_stringify :: "jsval \<Rightarrow> jsval" where
  "toy_json_stringify v =
     (case v of
        JUndefined \<Rightarrow> JUndefined
      | JStr s \<Rightarrow> JStr (CHR ''s'' # s)
      | JObj kvs \<Rightarrow>
          (if list_all (\<lambda>kv. frame_member kv \<noteq> None) kvs
           then JStr (CHR ''o'' # concat (map (\<lambda>kv. the (frame_member kv)) kvs))
           else JStr ''null'')
      | _ \<Rightarrow> JStr ''null'')"

definition toy_json_parse :: "string \<Rightarrow> string + jsval" where
  "toy_json_parse t =
     (case t of
        [] \<Rightarrow> Inl ''Unexpected end of JSON input''
      | c # r \<Rightarrow>
          if c = CHR ''s'' then Inr (JStr r)
          else if c = CHR ''o'' then Inr (JObj (parse_frames (length r) r))
          else if t = ''null'' then Inr JNull
          else Inl ''Unexpected token'')"

definition toy_pad :: "bytes \<Rightarrow> byte" where
  "toy_pad k = (case k of [] \<Rightarrow> 0 | b # _ \<Rightarrow> b)"

definition toy_tag :: "bytes \<Rightarrow> bytes \<Rightarrow> bytes \<Rightarrow> bytes" where
  "toy_tag k n c = map (\<lambda>b. b + toy_pad k) (n @ c)"

definition toy_encrypt :: "bytes \<Rightarrow> bytes \<Rightarrow> bytes \<Rightarrow> string + bytes \<times> bytes" where
  "toy_encrypt k n p =
     (let c = map (\<lambda>b. b + toy_pad k) p in Inr (c, toy_tag k n c))"

definition toy_decrypt :: "bytes \<Rightarrow> bytes \<Rightarrow> bytes \<Rightarrow> bytes \<Rightarrow> string + bytes" where
  "toy_decrypt k n c t =
     (if t = toy_tag k n c then Inr (map (\<lambda>b. b - toy_pad k) c)
      else Inl ''Unsupported state or unable to authenticate data'')"

definition toy_lib :: node_lib where
  "toy_lib =
     \<lparr>sha256_digest = toy_digest,
      string_to_bytes = toy_string_to_bytes,
      nonstring_to_bytes =
        (\<lambda>v enc. Inl ''The first argument must be of type string or an instance of Buffer''),
      bytes_to_string = toy_bytes_to_string,
      json_stringify = toy_json_stringify,
      json_parse = toy_json_parse,
      aes_gcm_encrypt = toy_encrypt,
      aes_gcm_decrypt = toy_decrypt\<rparr>"

text \<open>
  The endpoint check of the Solana client's \<^verbatim>\<open>Connection\<close> constructor: the endpoint
  begins with \<^verbatim>\<open>http:\<close> or \<^verbatim>\<open>https:\<close>, or a \<^verbatim>\<open>TypeError\<close> is thrown.
\<close>

definition toy_newConnection :: "string \<Rightarrow> string \<Rightarrow> string + Connection" where
  "toy_newConnection ep level =
     (if take 5 ep = ''http:'' \<or> take 6 ep = ''https:''
      then Inr \<lparr>endpoint = ep, conn_commitment = level\<rparr>
      else Inl ''Endpoint URL must start with `http:` or `https:`.'')"

definition toy_env :: sys_env where
  "toy_env =
     \<lparr>randomBytes = (\<lambda>n. replicate n 1),
      dateNow = 1700000000000,
      fetch = (\<lambda>url init. Inl ''fetch failed''),
      newConnection = toy_newConnection,
      newPublicKey = (\<lambda>s. Inr s),
      getLatestBlockhash = (\<lambda>conn level. Inr ''blockhash''),
      partialSign = (\<lambda>tx signers. Inr tx),
      serialize = (\<lambda>tx. Inr []),
      sendRawTransaction = (\<lambda>conn raw. Inr ''signature'')\<rparr>"

definition toy_cfg :: ZkPrimeConfig where
  "toy_cfg =
     \<lparr>rpcEndpoint = ''http://localhost:8899'', programId = None, computeProgramId = None,
      provingServiceUrl = None\<rparr>"

text \<open>
  A configuration with both program ids, a wallet that signs what it is given, and a
  configuration whose endpoint is not an HTTP URL.
\<close>

definition toy_chain_cfg :: ZkPrimeConfig where
  "toy_chain_cfg =
     toy_cfg\<lparr>programId := Some ''Prog1111'', computeProgramId := Some ''Compute1111''\<rparr>"

definition toy_wallet :: WalletAdapter where
  "toy_wallet = \<lparr>publicKey = Some ''wallet1'', signTransaction = Some (\<lambda>tx. Inr tx)\<rparr>"

definition bad_endpoint_cfg :: ZkPrimeConfig where
  "bad_endpoint_cfg = toy_cfg\<lparr>rpcEndpoint := ''ftp://localhost:8899'', programId := Some ''Prog1111''\<rparr>"

definition toy_key :: bytes where
  "toy_key = replicate 32 7"

definition toy_nonce :: bytes where
  "toy_nonce = replicate 12 1"

definition toy_value :: jsval where
  "toy_value = JObj [(''user'', JStr ''alice'')]"

text \<open>What \<open>encryptPayload\<close> gives on the stand-in platform for \<open>toy_value\<close>, \<open>toy_key\<close> and \<open>toy_nonce\<close>.\<close>

definition toy_envelope :: EncryptedPayload where
  "toy_envelope =
     \<lparr>alg = ''AES-GCM'', iv = replicate 12 1,
      ciphertext = [118, 56, 56, 56, 56, 55, 124, 122, 108, 121, 56, 56, 56, 56, 56,
                    55, 104, 115, 112, 106, 108],
      tag = [8, 8, 8, 8, 8, 8, 8, 8, 8, 8, 8, 8, 125, 63, 63, 63, 63, 62, 131,
             129, 115, 128, 63, 63, 63, 63, 63, 62, 111, 122, 119, 113, 115]\<rparr>"

definition toy_coordinator_cfg :: ZkPrimeConfig where
  "toy_coordinator_cfg = toy_cfg\<lparr>provingServiceUrl := Some ''https://coordinator.example''\<rparr>"

text \<open>A coordinator that answers every request with the JSON body \<^verbatim>\<open>null\<close>, and one that answers \<^verbatim>\<open>{}\<close>.\<close>

definition null_body_env :: sys_env where
  "null_body_env = toy_env\<lparr>fetch := (\<lambda>url init. Inr \<lparr>ok = True, json = Inr JNull\<rparr>)\<rparr>"

definition empty_body_env :: sys_env where
  "empty_body_env = toy_env\<lparr>fetch := (\<lambda>url init. Inr \<lparr>ok = True, json = Inr (JObj [])\<rparr>)\<rparr>"

text \<open>The record that \<^verbatim>\<open>submitJob\<close> puts into the mock store for an encrypted input.\<close>

definition pending_record :: "node_lib \<Rightarrow> sys_env \<Rightarrow> string \<Rightarrow> string \<Rightarrow> EncryptedPayload \<Rightarrow> JobRecord" where
  "pending_record lib env jobType owner enc =
     \<lparr>job_id = spec_derive_id lib (hashCommitment lib (Bytes (ciphertext enc))) owner,
      job_owner = owner, job_type = jobType,
      job_commitment = hashCommitment lib (Bytes (ciphertext enc)),
      job_status = PENDING, job_createdAt = dateNow env, job_resultRef = None\<rparr>"

definition toy_job :: JobDefinition where
  "toy_job = \<lparr>name = ''score'', version = Some ''v1'', description = None,
              inputSchema = None, outputSchema = None\<rparr>"

text \<open>A run on the stand-in platform: one job type, one submission, one mock result.\<close>

definition toy_result :: jsval where
  "toy_result = JObj [(''score'', JStr ''42'')]"

definition demo_jid :: string where
  "demo_jid = ''3838343a343a343a343a343938653863''"

definition demo_registered :: sdk_state where
  "demo_registered = step toy_lib toy_cfg (OpRegisterJobType toy_job) initial_state"

definition demo_submit :: cc_op where
  "demo_submit = OpSubmitJob toy_env ''score'' ''owner1'' toy_value toy_key None"

definition demo_submitted :: sdk_state where
  "demo_submitted = step toy_lib toy_cfg demo_submit demo_registered"

definition demo_completed :: sdk_state where
  "demo_completed = step toy_lib toy_cfg (OpSetMockResult demo_jid toy_envelope) demo_submitted"

definition demo_pending_record :: JobRecord where
  "demo_pending_record =
     \<lparr>job_id = demo_jid, job_owner = ''owner1'', job_type = ''score'',
      job_commitment = ''7739393939387d7b6d7a3939393939386974716b6d0101010101010101010101'',
      job_status = PENDING, job_createdAt = 1700000000000, job_resultRef = None\<rparr>"

definition toy_schema :: PrivateSchema where
  "toy_schema = \<lparr>schema_id = ''s1'', schema_name = ''Balance'',
                 schema_fields = [\<lparr>field_name = ''balance'', field_type = ''u64''\<rparr>]\<rparr>"

text \<open>A coordinator that serves \<open>toy_envelope\<close> as the result of every job.\<close>

definition toy_coordinator_env :: sys_env where
  "toy_coordinator_env =
     toy_env\<lparr>fetch := (\<lambda>url init.
       Inr \<lparr>ok = True,
            json = Inr (JObj
              [(''iv'', JStr (toy_bytes_to_string (iv toy_envelope) ''base64'')),
               (''ciphertext'', JStr (toy_bytes_to_string (ciphertext toy_envelope) ''base64'')),
               (''tag'', JStr (toy_bytes_to_string (tag toy_envelope) ''base64''))])\<rparr>)\<rparr>"

text \<open>The result reference that \<^verbatim>\<open>_setMockResult\<close> stores for \<open>toy_envelope\<close>.\<close>

definition demo_reference :: string where
  "demo_reference =
     bytes_to_string toy_lib
       (string_to_bytes toy_lib
          (CHR ''o'' #
           frame ''iv'' @ frame (bytes_to_string toy_lib (iv toy_envelope) ''base64'') @
           frame ''tag'' @ frame (bytes_to_string toy_lib (tag toy_envelope) ''base64'') @
           frame ''ciphertext'' @
           frame (bytes_to_string toy_lib (ciphertext toy_envelope) ''base64''))
          ''utf8'')
       ''base64''"

definition demo_completed_record :: JobRecord where
  "demo_completed_record =
     demo_pending_record\<lparr>job_resultRef := Some demo_reference, job_status := COMPLETED\<rparr>"

definition demo_schema_state :: sdk_state where
  "demo_schema_state = snd (defineSchema toy_schema initial_state)"

section \<open>Proofs\<close>

subsection \<open>The stand-in platform meets what is assumed\<close>

lemma toy_aead_correct: "aead_correct toy_lib"
  by (simp add: aead_correct_def toy_lib_def toy_encrypt_def toy_decrypt_def Let_def o_def)

lemma toy_digest_32: "digest_32 toy_lib"
  by (auto simp add: digest_32_def toy_lib_def toy_digest_def)

lemma toy_hex_length: "length (toy_hex bs) = 2 * length bs"
  by (induction bs) (simp_all add: toy_hex_def)

lemma toy_hex_doubles: "hex_doubles toy_lib"
  by (simp add: hex_doubles_def toy_lib_def toy_bytes_to_string_def toy_hex_length)

lemma xor_fixed: "(a::byte) XOR b = a \<Longrightarrow> b = 0"
proof -
  assume h: "a XOR b = a"
  have "b = a XOR (a XOR b)" by (simp add: xor.assoc [symmetric])
  also have "\<dots> = 0" by (simp add: h)
  finally show ?thesis .
qed

lemma length_flip_bit_at: "length (flip_bit_at i bs) = length bs"
  by (simp add: flip_bit_at_def)

lemma flip_bit_at_neq:
  assumes "i < 8 * length bs"
  shows "flip_bit_at i bs \<noteq> bs"
proof
  assume eq: "flip_bit_at i bs = bs"
  have j: "i div 8 < length bs" using assms by auto
  have "flip_bit_at i bs ! (i div 8) = (bs ! (i div 8)) XOR push_bit (i mod 8) 1"
    using j by (simp add: flip_bit_at_def flip_bit_eq_xor)
  with eq have "(bs ! (i div 8)) XOR push_bit (i mod 8) 1 = bs ! (i div 8)" by simp
  then have "push_bit (i mod 8) (1::byte) = 0" by (rule xor_fixed)
  then show False by (simp add: push_bit_eq_mult)
qed

lemma ensureKey_32: "length K = 32 \<Longrightarrow> ensureKey K = Inr ()"
  by (simp add: ensureKey_def)

lemma encryptPayload_Inr:
  assumes "encryptPayload lib nonce V K = Inr q"
  shows "length K = 32 \<and> alg q = ''AES-GCM'' \<and> iv q = nonce \<and>
         (\<exists>s. json_stringify lib V = s \<and>
            (\<exists>plain. buffer_from lib s ''utf8'' = Inr plain \<and>
               aes_gcm_encrypt lib K nonce plain = Inr (ciphertext q, tag q)))"
  using assms
  by (auto simp add: encryptPayload_def ensureKey_def Let_def split: if_splits sum.splits)

lemma encryptPayload_ok:
  assumes "aead_correct lib" "length K = 32" "length nonce = 12" "json_stringify lib V = JStr s"
  shows "\<exists>c t. encryptPayload lib nonce V K =
                  Inr \<lparr>alg = ''AES-GCM'', iv = nonce, ciphertext = c, tag = t\<rparr> \<and>
               aes_gcm_decrypt lib K nonce c t = Inr (string_to_bytes lib s ''utf8'')"
proof -
  from assms(1-3) obtain c t where
    "aes_gcm_encrypt lib K nonce (string_to_bytes lib s ''utf8'') = Inr (c, t)"
    "aes_gcm_decrypt lib K nonce c t = Inr (string_to_bytes lib s ''utf8'')"
    unfolding aead_correct_def by blast
  then show ?thesis
    using assms(2,4) by (simp add: encryptPayload_def ensureKey_def buffer_from_def)
qed

lemma json_serializableD:
  assumes "json_serializable lib V"
  obtains s where "json_stringify lib V = JStr s"
    "json_parse lib (bytes_to_string lib (string_to_bytes lib s ''utf8'') ''utf8'') = Inr V"
  using assms by (auto simp add: json_serializable_def split: jsval.splits)

lemma roundtrip:
  assumes "aead_correct lib" and "length K = 32" and "length nonce = 12"
    and "json_serializable lib V"
  shows "\<exists>p. encryptPayload lib nonce V K = Inr p \<and> decryptPayload lib p K = Inr V"
proof -
  from assms(4) obtain s where s: "json_stringify lib V = JStr s"
    "json_parse lib (bytes_to_string lib (string_to_bytes lib s ''utf8'') ''utf8'') = Inr V"
    by (rule json_serializableD)
  from encryptPayload_ok [OF assms(1-3) s(1)] obtain c t where
    e: "encryptPayload lib nonce V K = Inr \<lparr>alg = ''AES-GCM'', iv = nonce, ciphertext = c, tag = t\<rparr>"
    and d: "aes_gcm_decrypt lib K nonce c t = Inr (string_to_bytes lib s ''utf8'')"
    by blast
  have "decryptPayload lib \<lparr>alg = ''AES-GCM'', iv = nonce, ciphertext = c, tag = t\<rparr> K = Inr V"
    using assms(2) d s(2) by (simp add: decryptPayload_def ensureKey_def)
  with e show ?thesis by blast
qed

subsection \<open>The stand-in codecs\<close>

lemma unat_byte_less: "unat (b::byte) < 256"
  using unsigned_less [of b, where 'a = nat] by simp

lemma byte_of_char_of: "(of_char (char_of (unat (b::byte))) :: byte) = b"
proof -
  have "(of_char (char_of (unat b)) :: byte) = of_nat (of_char (char_of (unat b)))"
    by (simp only: of_nat_of_char)
  also have "\<dots> = of_nat (unat b)"
    using unat_byte_less [of b] by simp
  finally show ?thesis by simp
qed

lemma char_of_byte_of: "char_of (unat (of_char c :: byte)) = c"
proof -
  have "(of_char c :: byte) = of_nat (of_char c)" by (simp only: of_nat_of_char)
  then have "unat (of_char c :: byte) = of_char c mod 256"
    by (simp only: unat_of_nat) simp
  then show ?thesis by simp
qed

lemma takeWhile_ones: "takeWhile (\<lambda>c. c = CHR ''1'') (replicate n (CHR ''1'') @ CHR ''0'' # r) = replicate n (CHR ''1'')"
  by (induction n) simp_all

lemma unframe_frame: "unframe (frame s @ r) = (s, r)"
  by (simp add: unframe_def frame_def takeWhile_ones Let_def)

lemma frame_not_Nil: "frame s \<noteq> []"
  by (simp add: frame_def)

lemma parse_frames_Nil: "parse_frames f [] = []"
  by (cases f) simp_all

lemma parse_three_frames:
  "parse_frames (Suc (Suc (Suc f)))
     (frame k1 @ frame a @ frame k2 @ frame b @ frame k3 @ frame c) =
   [(k1, JStr a), (k2, JStr b), (k3, JStr c)]"
  using unframe_frame [of c "[]"]
  by (simp add: unframe_frame frame_not_Nil parse_frames_Nil)

lemma three_frames_length:
  "\<exists>f. length (frame k1 @ frame a @ frame k2 @ frame b @ frame k3 @ frame c) = Suc (Suc (Suc f))"
  by (simp add: frame_def)

lemma toy_json_three:
  "toy_json_parse (CHR ''o'' # frame k1 @ frame a @ frame k2 @ frame b @ frame k3 @ frame c) =
     Inr (JObj [(k1, JStr a), (k2, JStr b), (k3, JStr c)])"
proof -
  obtain f where "length (frame k1 @ frame a @ frame k2 @ frame b @ frame k3 @ frame c) = Suc (Suc (Suc f))"
    using three_frames_length by blast
  then show ?thesis
    by (simp only: toy_json_parse_def list.case parse_three_frames) simp
qed

lemma toy_utf8: "toy_bytes_to_string (toy_string_to_bytes s ''utf8'') ''utf8'' = s"
  by (simp add: toy_string_to_bytes_def toy_bytes_to_string_def o_def char_of_byte_of)

lemma toy_json_text_parses: "json_text_parses toy_lib"
proof -
  have "\<not> isl (toy_json_parse s)" if "toy_json_stringify v = JStr s" for v s
    using that
    by (auto simp add: toy_json_stringify_def toy_json_parse_def
        split: jsval.splits if_splits list.splits)
  then show ?thesis
    by (simp add: json_text_parses_def toy_lib_def toy_utf8)
qed

lemma toy_codecs_lossless: "codecs_lossless toy_lib"
proof -
  have b64: "toy_string_to_bytes (toy_bytes_to_string bs ''base64'') ''base64'' = bs" for bs
    by (simp add: toy_string_to_bytes_def toy_bytes_to_string_def o_def byte_of_char_of)
  have ne: "bs \<noteq> [] \<Longrightarrow> toy_bytes_to_string bs ''base64'' \<noteq> []" for bs
    by (simp add: toy_bytes_to_string_def)
  have utf8: "toy_bytes_to_string (toy_string_to_bytes s ''utf8'') ''utf8'' = s" for s
    by (simp add: toy_string_to_bytes_def toy_bytes_to_string_def o_def char_of_byte_of)
  have js: "toy_json_stringify (JObj [(''iv'', JStr a), (''tag'', JStr b), (''ciphertext'', JStr c)]) =
      JStr (CHR ''o'' # frame ''iv'' @ frame a @ frame ''tag'' @ frame b @ frame ''ciphertext'' @ frame c)"
    for a b c
    by (simp add: toy_json_stringify_def)
  show ?thesis
    unfolding codecs_lossless_def
    by (simp add: toy_lib_def b64 ne utf8 js toy_json_three) (simp add: toy_string_to_bytes_def)
qed

subsection \<open>C1: the encrypt/decrypt round trip\<close>

text \<open>
  C1. For every 32-byte key \<open>K\<close> and every JSON-serializable value \<open>V\<close>,
  \<^verbatim>\<open>encryptPayload(V, K)\<close> returns an envelope, and \<^verbatim>\<open>decryptPayload\<close> of that envelope
  under \<open>K\<close> returns \<open>V\<close>, whatever 96-bit nonce \<^verbatim>\<open>randomBytes(12)\<close> drew; this for a
  platform whose AES-256-GCM decrypts what it encrypted.
\<close>

theorem encrypt_decrypt_roundtrip:
  assumes "aead_correct lib" and "length K = 32" and "length nonce = 12"
    and "json_serializable lib V"
  shows "\<exists>p. encryptPayload lib nonce V K = Inr p \<and> decryptPayload lib p K = Inr V"
  using assms by (rule roundtrip)

theorem encrypt_decrypt_roundtrip_witness:
  "\<exists>p. encryptPayload toy_lib toy_nonce toy_value toy_key = Inr p \<and>
       decryptPayload toy_lib p toy_key = Inr toy_value"
proof -
  have 1: "length toy_key = 32" by (simp add: toy_key_def)
  have 2: "length toy_nonce = 12" by (simp add: toy_nonce_def)
  have 3: "json_serializable toy_lib toy_value" by code_simp
  show ?thesis by (rule encrypt_decrypt_roundtrip [OF toy_aead_correct 1 2 3])
qed

subsection \<open>C5: \<^verbatim>\<open>normalizeKey\<close>\<close>

text \<open>
  C5. \<^verbatim>\<open>normalizeKey(b)\<close> is \<open>b\<close> itself when \<open>b\<close> has exactly 32 bytes, and
  \<^verbatim>\<open>deriveKeyFromSeed(b)\<close> otherwise, which is one SHA-256 digest of \<open>b\<close>.
\<close>

theorem normalizeKey_cases:
  "(length b = 32 \<longrightarrow> normalizeKey lib b = b) \<and>
   (length b \<noteq> 32 \<longrightarrow> normalizeKey lib b = deriveKeyFromSeed lib b) \<and>
   deriveKeyFromSeed lib b = sha256_digest lib b"
  by (simp add: normalizeKey_def deriveKeyFromSeed_def sha256_def)

theorem normalizeKey_cases_witness:
  "normalizeKey toy_lib toy_key = toy_key \<and>
   normalizeKey toy_lib [1, 2, 3] = deriveKeyFromSeed toy_lib [1, 2, 3] \<and>
   deriveKeyFromSeed toy_lib [1, 2, 3] = [2, 3, 4] @ replicate 29 1"
proof -
  have "length toy_key = 32" by (simp add: toy_key_def)
  moreover have "length [1, 2, 3 :: byte] \<noteq> 32" by simp
  moreover have "sha256_digest toy_lib [1, 2, 3] = [2, 3, 4] @ replicate 29 1"
    by (simp add: toy_lib_def toy_digest_def)
  ultimately show ?thesis
    using normalizeKey_cases [of toy_key toy_lib] normalizeKey_cases [of "[1, 2, 3]" toy_lib]
    by simp
qed

subsection \<open>Tampering and the envelope checks\<close>

lemma toy_envelope_eq: "encryptPayload toy_lib toy_nonce toy_value toy_key = Inr toy_envelope"
  by code_simp

lemma inj_add_byte: "inj (\<lambda>b::byte. b + x)"
  by (simp add: inj_def)

lemma toy_tag_eq: "toy_tag k n c = toy_tag k n' c' \<longleftrightarrow> n @ c = n' @ c'"
  by (simp add: toy_tag_def inj_map_eq_map [OF inj_add_byte] del: map_append)

lemma toy_aead_authentic: "aead_authentic toy_lib"
proof -
  have n: "isl (toy_decrypt k (flip_bit_at i n) c (toy_tag k n c))" if "i < 8 * length n"
    for k n c i
    using flip_bit_at_neq [OF that] by (simp add: toy_decrypt_def toy_tag_eq)
  have c: "isl (toy_decrypt k n (flip_bit_at i c) (toy_tag k n c))" if "i < 8 * length c"
    for k n c i
    using flip_bit_at_neq [OF that] by (simp add: toy_decrypt_def toy_tag_eq)
  have t: "isl (toy_decrypt k n c (flip_bit_at i (toy_tag k n c)))"
    if "i < 8 * length (toy_tag k n c)" for k n c i
    using flip_bit_at_neq [OF that] by (simp add: toy_decrypt_def)
  show ?thesis
    unfolding aead_authentic_def
    by (auto simp add: toy_lib_def toy_encrypt_def Let_def n c t)
qed

lemma decryptPayload_rejected:
  assumes "isl (aes_gcm_decrypt lib K (iv q) (ciphertext q) (tag q))"
  shows "fails_with_CryptoError (decryptPayload lib q K)"
  using assms
  by (auto simp add: fails_with_CryptoError_def decryptPayload_def ensureKey_def
      split: sum.splits)

lemma tampered_rejected:
  assumes auth: "aead_authentic lib" and enc: "encryptPayload lib nonce V K = Inr q"
    and alt: "one_bit_altered q q'"
  shows "fails_with_CryptoError (decryptPayload lib q' K)"
proof -
  from encryptPayload_Inr [OF enc] obtain plain where
    k: "length K = 32" and
    e: "aes_gcm_encrypt lib K (iv q) plain = Inr (ciphertext q, tag q)"
    by auto
  from alt obtain i where
    i: "(i < 8 * length (iv q) \<and> q' = q\<lparr>iv := flip_bit_at i (iv q)\<rparr>)
        \<or> (i < 8 * length (ciphertext q) \<and> q' = q\<lparr>ciphertext := flip_bit_at i (ciphertext q)\<rparr>)
        \<or> (i < 8 * length (tag q) \<and> q' = q\<lparr>tag := flip_bit_at i (tag q)\<rparr>)"
    unfolding one_bit_altered_def by blast
  from auth k e have
    a: "i < 8 * length (iv q) \<longrightarrow>
          isl (aes_gcm_decrypt lib K (flip_bit_at i (iv q)) (ciphertext q) (tag q))"
    and b: "i < 8 * length (ciphertext q) \<longrightarrow>
          isl (aes_gcm_decrypt lib K (iv q) (flip_bit_at i (ciphertext q)) (tag q))"
    and c: "i < 8 * length (tag q) \<longrightarrow>
          isl (aes_gcm_decrypt lib K (iv q) (ciphertext q) (flip_bit_at i (tag q)))"
    unfolding aead_authentic_def by blast+
  from i a b c have "isl (aes_gcm_decrypt lib K (iv q') (ciphertext q') (tag q'))"
    by auto
  then show ?thesis by (rule decryptPayload_rejected)
qed

subsection \<open>C4: the failures of \<^verbatim>\<open>encryptPayload\<close> and \<^verbatim>\<open>decryptPayload\<close>\<close>

text \<open>
  C4. \<^verbatim>\<open>encryptPayload\<close> fails with a \<open>CryptoError\<close> whenever the key is not 32 bytes long;
  \<^verbatim>\<open>decryptPayload\<close> fails with a \<open>CryptoError\<close> whenever the key is not 32 bytes long,
  whenever the envelope's algorithm tag is not \<^verbatim>\<open>'AES-GCM'\<close>, and whenever one bit of the
  nonce, the ciphertext or the tag of an envelope that \<^verbatim>\<open>encryptPayload\<close> produced has been
  inverted; with a 32-byte key, \<^verbatim>\<open>encryptPayload\<close> returns an envelope for every value that
  has a JSON text, and \<^verbatim>\<open>decryptPayload\<close> of that unaltered envelope under the same key
  does not fail. The platform's AES-256-GCM is taken to decrypt what it encrypted and to
  reject an encryption with one bit inverted, and its \<^verbatim>\<open>JSON.parse\<close> to read what
  \<^verbatim>\<open>JSON.stringify\<close> wrote.
\<close>

theorem crypto_error_cases:
  assumes "aead_correct lib" and "aead_authentic lib" and "json_text_parses lib"
  shows "(length K \<noteq> 32 \<longrightarrow>
            fails_with_CryptoError (encryptPayload lib nonce V K) \<and>
            fails_with_CryptoError (decryptPayload lib p K)) \<and>
         (alg p \<noteq> ''AES-GCM'' \<longrightarrow> fails_with_CryptoError (decryptPayload lib p K)) \<and>
         (encryptPayload lib nonce V K = Inr q \<and> one_bit_altered q q' \<longrightarrow>
            fails_with_CryptoError (decryptPayload lib q' K)) \<and>
         (length K = 32 \<and> length nonce = 12 \<and> json_stringify lib V = JStr text \<longrightarrow>
            (\<exists>e. encryptPayload lib nonce V K = Inr e \<and> \<not> isl (decryptPayload lib e K)))"
proof (intro conjI impI)
  assume "length K \<noteq> 32"
  then show "fails_with_CryptoError (encryptPayload lib nonce V K)"
    by (simp add: fails_with_CryptoError_def encryptPayload_def ensureKey_def)
next
  assume "length K \<noteq> 32"
  then show "fails_with_CryptoError (decryptPayload lib p K)"
    by (simp add: fails_with_CryptoError_def decryptPayload_def ensureKey_def)
next
  assume "alg p \<noteq> ''AES-GCM''"
  then show "fails_with_CryptoError (decryptPayload lib p K)"
    by (simp add: fails_with_CryptoError_def decryptPayload_def ensureKey_def)
next
  assume "encryptPayload lib nonce V K = Inr q \<and> one_bit_altered q q'"
  then show "fails_with_CryptoError (decryptPayload lib q' K)"
    using tampered_rejected [OF assms(2)] by blast
next
  assume a: "length K = 32 \<and> length nonce = 12 \<and> json_stringify lib V = JStr text"
  then have k: "length K = 32" and n: "length nonce = 12"
    and t: "json_stringify lib V = JStr text" by simp_all
  from encryptPayload_ok [OF assms(1) k n t] obtain c t' where
    e: "encryptPayload lib nonce V K =
          Inr \<lparr>alg = ''AES-GCM'', iv = nonce, ciphertext = c, tag = t'\<rparr>"
    and d: "aes_gcm_decrypt lib K nonce c t' = Inr (string_to_bytes lib text ''utf8'')"
    by blast
  from assms(3) t have
    "\<not> isl (json_parse lib (bytes_to_string lib (string_to_bytes lib text ''utf8'') ''utf8''))"
    unfolding json_text_parses_def by blast
  then have "\<not> isl (decryptPayload lib
      \<lparr>alg = ''AES-GCM'', iv = nonce, ciphertext = c, tag = t'\<rparr> K)"
    using k d by (auto simp add: decryptPayload_def ensureKey_def split: sum.splits)
  with e show "\<exists>e. encryptPayload lib nonce V K = Inr e \<and> \<not> isl (decryptPayload lib e K)"
    by blast
qed

theorem crypto_error_cases_witness:
  "fails_with_CryptoError (encryptPayload toy_lib toy_nonce toy_value [1, 2, 3]) \<and>
   fails_with_CryptoError (decryptPayload toy_lib toy_envelope [1, 2, 3]) \<and>
   fails_with_CryptoError (decryptPayload toy_lib (toy_envelope\<lparr>alg := ''AES-CBC''\<rparr>) toy_key) \<and>
   fails_with_CryptoError
     (decryptPayload toy_lib (toy_envelope\<lparr>iv := flip_bit_at 95 (iv toy_envelope)\<rparr>) toy_key) \<and>
   fails_with_CryptoError
     (decryptPayload toy_lib
        (toy_envelope\<lparr>ciphertext := flip_bit_at 0 (ciphertext toy_envelope)\<rparr>) toy_key) \<and>
   fails_with_CryptoError
     (decryptPayload toy_lib (toy_envelope\<lparr>tag := flip_bit_at 7 (tag toy_envelope)\<rparr>) toy_key) \<and>
   encryptPayload toy_lib toy_nonce toy_value toy_key = Inr toy_envelope \<and>
   \<not> isl (decryptPayload toy_lib toy_envelope toy_key)"
proof -
  note inst = crypto_error_cases [OF toy_aead_correct toy_aead_authentic toy_json_text_parses]
  have k: "length toy_key = 32" "length toy_nonce = 12" "length [1, 2, 3 :: byte] \<noteq> 32"
    by (simp_all add: toy_key_def toy_nonce_def)
  have v: "json_stringify toy_lib toy_value = JStr (CHR ''o'' # frame ''user'' @ frame ''alice'')"
    by (simp add: toy_lib_def toy_json_stringify_def toy_value_def)
  have a: "alg (toy_envelope\<lparr>alg := ''AES-CBC''\<rparr>) \<noteq> ''AES-GCM''" by simp
  have 1: "one_bit_altered toy_envelope (toy_envelope\<lparr>iv := flip_bit_at 95 (iv toy_envelope)\<rparr>)"
    unfolding one_bit_altered_def by (rule exI [of _ 95]) (simp add: toy_envelope_def)
  have 2: "one_bit_altered toy_envelope
             (toy_envelope\<lparr>ciphertext := flip_bit_at 0 (ciphertext toy_envelope)\<rparr>)"
    unfolding one_bit_altered_def by (rule exI [of _ 0]) (simp add: toy_envelope_def)
  have 3: "one_bit_altered toy_envelope (toy_envelope\<lparr>tag := flip_bit_at 7 (tag toy_envelope)\<rparr>)"
    unfolding one_bit_altered_def by (rule exI [of _ 7]) (simp add: toy_envelope_def)
  show ?thesis
    using inst [of "[1, 2, 3]" toy_nonce toy_value toy_envelope]
      inst [of toy_key toy_nonce toy_value "toy_envelope\<lparr>alg := ''AES-CBC''\<rparr>"]
      inst [of toy_key toy_nonce toy_value _ toy_envelope] 
      k v a 1 2 3 toy_envelope_eq
    by simp
qed

subsection \<open>C6: \<^verbatim>\<open>submitJob\<close> for a job type that is not registered\<close>

text \<open>
  C6. For a job type that is not in the registry, \<^verbatim>\<open>submitJob\<close> fails with
  \<open>NotFoundError\<close> and the state is the one before the call: the registry, the mock job
  store and the log of requests are unchanged. The result is the same for every platform,
  every outside world, every input and every seed, so nothing was encrypted, derived or
  sent before the failure.
\<close>

theorem submitJob_unregistered:
  assumes "registry st jobType = None"
  shows "submitJob lib env cfg jobType owner input seed w st =
           (Inl (NotFoundError (''job type '' @ jobType @ '' not registered'')), st)"
  using assms by (simp add: submitJob_def)

theorem submitJob_unregistered_witness:
  "submitJob toy_lib toy_env toy_cfg ''score'' ''owner1'' toy_value toy_key None initial_state =
     (Inl (NotFoundError ''job type score not registered''), initial_state)"
proof -
  have "registry initial_state ''score'' = None" by (simp add: initial_state_def)
  from submitJob_unregistered [OF this] show ?thesis by simp
qed

subsection \<open>C9: \<^verbatim>\<open>getStateCommitment\<close>\<close>

text \<open>
  C9, as stated, fails with a program id configured and an RPC endpoint that the Solana
  client does not accept. The constructor of \<^verbatim>\<open>PrivateStateClient\<close> asks only that
  \<^verbatim>\<open>rpcEndpoint\<close> is not empty; for the endpoint \<^verbatim>\<open>ftp://localhost:8899\<close>,
  \<^verbatim>\<open>new Connection\<close> inside \<^verbatim>\<open>getConnection\<close> throws a \<^verbatim>\<open>TypeError\<close>, and
  \<^verbatim>\<open>getStateCommitment\<close> rejects with it instead of returning \<^verbatim>\<open>null\<close>.
\<close>

theorem getStateCommitment_bad_endpoint_counterexample:
  "rpcEndpoint bad_endpoint_cfg = ''ftp://localhost:8899'' \<and>
   programId bad_endpoint_cfg = Some ''Prog1111'' \<and>
   fst (getStateCommitment toy_env bad_endpoint_cfg ''state-1'' initial_state) =
     Inl (Thrown ''Endpoint URL must start with `http:` or `https:`.'')"
  by (simp add: getStateCommitment_def getConnection_def bad_endpoint_cfg_def toy_cfg_def
      toy_env_def toy_newConnection_def initial_state_def)

text \<open>
  C9, amended. \<^verbatim>\<open>getStateCommitment\<close> returns \<^verbatim>\<open>null\<close> and leaves the state as it is when
  no program id is configured. With a program id it returns \<^verbatim>\<open>null\<close> whenever the
  connection of the RPC endpoint is cached or \<^verbatim>\<open>new Connection\<close> accepts the endpoint;
  when no connection is cached and \<^verbatim>\<open>new Connection\<close> throws, the call rejects with what
  was thrown. For no state id does it return a commitment.
\<close>

theorem getStateCommitment_null:
  "(\<not> configured (programId cfg) \<longrightarrow>
      getStateCommitment env cfg stateId st = (Inr None, st)) \<and>
   (configured (programId cfg) \<and>
    (cache st (rpcEndpoint cfg) \<noteq> None \<or>
     \<not> isl (newConnection env (rpcEndpoint cfg) ''confirmed'')) \<longrightarrow>
      fst (getStateCommitment env cfg stateId st) = Inr None) \<and>
   (configured (programId cfg) \<and> cache st (rpcEndpoint cfg) = None \<and>
    newConnection env (rpcEndpoint cfg) ''confirmed'' = Inl m \<longrightarrow>
      fst (getStateCommitment env cfg stateId st) = Inl (Thrown m)) \<and>
   (\<forall>c. fst (getStateCommitment env cfg stateId st) \<noteq> Inr (Some c))"
  by (auto simp add: getStateCommitment_def getConnection_def
      split: option.splits sum.splits)

theorem getStateCommitment_null_witness:
  "getStateCommitment toy_env toy_cfg ''state-1'' initial_state = (Inr None, initial_state) \<and>
   fst (getStateCommitment toy_env toy_chain_cfg ''state-1'' initial_state) = Inr None \<and>
   fst (getStateCommitment toy_env bad_endpoint_cfg ''state-1'' initial_state) =
     Inl (Thrown ''Endpoint URL must start with `http:` or `https:`.'')"
proof -
  have 1: "\<not> configured (programId toy_cfg)" by (simp add: toy_cfg_def)
  have 2: "configured (programId toy_chain_cfg) \<and>
           (cache initial_state (rpcEndpoint toy_chain_cfg) \<noteq> None \<or>
            \<not> isl (newConnection toy_env (rpcEndpoint toy_chain_cfg) ''confirmed''))"
    by (simp add: toy_chain_cfg_def toy_cfg_def toy_env_def toy_newConnection_def)
  have 3: "configured (programId bad_endpoint_cfg) \<and>
           cache initial_state (rpcEndpoint bad_endpoint_cfg) = None \<and>
           newConnection toy_env (rpcEndpoint bad_endpoint_cfg) ''confirmed'' =
             Inl ''Endpoint URL must start with `http:` or `https:`.''"
    by (simp add: bad_endpoint_cfg_def toy_cfg_def toy_env_def toy_newConnection_def
        initial_state_def)
  from getStateCommitment_null [where cfg = toy_cfg and env = toy_env
      and stateId = "''state-1''" and st = initial_state] 1
    getStateCommitment_null [where cfg = toy_chain_cfg and env = toy_env
      and stateId = "''state-1''" and st = initial_state] 2
    getStateCommitment_null [where cfg = bad_endpoint_cfg and env = toy_env
      and stateId = "''state-1''" and st = initial_state
      and m = "''Endpoint URL must start with `http:` or `https:`.''"] 3
  show ?thesis by blast
qed

subsection \<open>C10: the status of a job the coordinator says nothing about\<close>

text \<open>
  C10, as stated, fails for the JSON body \<^verbatim>\<open>null\<close>: it has no truthy status member, but
  reading \<^verbatim>\<open>json.status\<close> throws inside the \<^verbatim>\<open>try\<close>, the \<^verbatim>\<open>catch\<close> swallows that, and the
  mock store is consulted; for a job id that was never submitted the call fails with
  \<open>NotFoundError\<close>.
\<close>

theorem getJobStatus_null_body_counterexample:
  "configured (provingServiceUrl toy_coordinator_cfg) \<and>
   fetch null_body_env ''https://coordinator.example/job-status/never-submitted'' None =
     Inr \<lparr>ok = True, json = Inr JNull\<rparr> \<and>
   mockJobs initial_state ''never-submitted'' = None \<and>
   fst (getJobStatus null_body_env toy_coordinator_cfg ''never-submitted'' initial_state) =
     Inl (NotFoundError ''job not found'')"
  by (simp add: getJobStatus_def toy_coordinator_cfg_def toy_cfg_def null_body_env_def
      toy_env_def initial_state_def Let_def)

text \<open>
  C10, amended. With a coordinator URL configured, when the status endpoint answers with
  a successful HTTP status and a JSON body on which the member \<^verbatim>\<open>status\<close> can be read
  (any body but \<^verbatim>\<open>null\<close>) and is missing or falsy, \<^verbatim>\<open>getJobStatus\<close> returns
  \<^verbatim>\<open>"PENDING"\<close>, whatever the mock store holds, also for a job id that was never
  submitted.
\<close>

theorem getJobStatus_defaults_to_PENDING:
  assumes "configured (provingServiceUrl cfg)"
    and "fetch env (the (provingServiceUrl cfg) @ ''/job-status/'' @ jid) None = Inr resp"
    and "ok resp" and "json resp = Inr j"
    and "get_prop j ''status'' = Inr s" and "\<not> truthy s"
  shows "fst (getJobStatus env cfg jid st) = Inr (JStr ''PENDING'')"
  using assms by (simp add: getJobStatus_def Let_def)

theorem getJobStatus_defaults_to_PENDING_witness:
  "fst (getJobStatus empty_body_env toy_coordinator_cfg ''never-submitted'' initial_state) =
     Inr (JStr ''PENDING'')"
proof -
  have 1: "configured (provingServiceUrl toy_coordinator_cfg)"
    by (simp add: toy_coordinator_cfg_def)
  have 2: "fetch empty_body_env
             (the (provingServiceUrl toy_coordinator_cfg) @ ''/job-status/'' @ ''never-submitted'')
             None = Inr \<lparr>ok = True, json = Inr (JObj [])\<rparr>"
    by (simp add: empty_body_env_def)
  have 3: "ok \<lparr>ok = True, json = Inr (JObj [])\<rparr>" by simp
  have 4: "json \<lparr>ok = True, json = Inr (JObj [])\<rparr> = Inr (JObj [])" by simp
  have 5: "get_prop (JObj []) ''status'' = Inr JUndefined" by simp
  have 6: "\<not> truthy JUndefined" by simp
  from getJobStatus_defaults_to_PENDING [OF 1 2 3 4 5 6] show ?thesis .
qed

subsection \<open>What each operation does to the registries\<close>

lemma buildAndSendTransaction_frame:
  assumes "buildAndSendTransaction env conn w ixs signers st = (r, st')"
  shows "mockJobs st' = mockJobs st \<and> registry st' = registry st \<and>
         schemaRegistry st' = schemaRegistry st \<and> cache st' = cache st"
  using assms
  by (auto simp add: buildAndSendTransaction_def log_effect_def Let_def
      split: option.splits sum.splits if_splits)

lemma getConnection_frame:
  assumes "getConnection env ep st = (r, st')"
  shows "mockJobs st' = mockJobs st \<and> registry st' = registry st \<and>
         schemaRegistry st' = schemaRegistry st \<and> effects st' = effects st"
  using assms
  by (auto simp add: getConnection_def split: option.splits sum.splits)

lemma sendOperation_frame:
  assumes "sendOperation lib env cfg pid w operation st = (r, st')"
  shows "mockJobs st' = mockJobs st \<and> registry st' = registry st \<and>
         schemaRegistry st' = schemaRegistry st"
proof -
  obtain conn st1 where g: "getConnection env (rpcEndpoint cfg) st = (conn, st1)"
    by (cases "getConnection env (rpcEndpoint cfg) st")
  note f = getConnection_frame [OF g]
  show ?thesis
    using assms f
    by (auto simp add: sendOperation_def g split: sum.splits
        dest!: buildAndSendTransaction_frame)
qed

lemma registerJobType_mockJobs: "mockJobs (snd (registerJobType d st)) = mockJobs st"
  by (simp add: registerJobType_def)

lemma getJobStatus_mockJobs: "mockJobs (snd (getJobStatus env cfg jid st)) = mockJobs st"
  by (simp add: getJobStatus_def log_effect_def Let_def split: option.splits)

lemma fetchResult_mockJobs: "mockJobs (snd (fetchResult lib env cfg jid seed st)) = mockJobs st"
  by (simp add: fetchResult_def log_effect_def Let_def split: option.splits sum.splits)

lemma setMockResult_mockJobs:
  "mockJobs (snd (setMockResult lib jid ep st)) = mockJobs st \<or>
   (\<exists>r ref. mockJobs st jid = Some r \<and>
      mockJobs (snd (setMockResult lib jid ep st)) =
        (mockJobs st)(jid \<mapsto> r\<lparr>job_resultRef := Some ref, job_status := COMPLETED\<rparr>))"
  by (auto simp add: setMockResult_def Let_def split: option.splits sum.splits)

lemma submitJob_cases:
  obtains
    (unregistered) "registry st jobType = None"
      "submitJob lib env cfg jobType owner input seed w st =
         (Inl (NotFoundError (''job type '' @ jobType @ '' not registered'')), st)"
  | (crypto) e where
      "encryptPayload lib (randomBytes env 12) input (normalizeKey lib seed) = Inl e"
      "submitJob lib env cfg jobType owner input seed w st = (Inl e, st)"
  | (chain) e where
      "configured (computeProgramId cfg)" "w \<noteq> None"
      "encryptPayload lib (randomBytes env 12) input (normalizeKey lib seed) = Inr e"
      "isl (fst (sendOperation lib env cfg (the (computeProgramId cfg)) (the w)
         (JObj [(''op'', JStr ''submit_job''),
                (''jobId'', JStr (spec_derive_id lib (hashCommitment lib (Bytes (ciphertext e))) owner)),
                (''commitment'', JStr (hashCommitment lib (Bytes (ciphertext e)))),
                (''type'', JStr jobType)]) st))"
      "isl (fst (submitJob lib env cfg jobType owner input seed w st))"
      "mockJobs (snd (submitJob lib env cfg jobType owner input seed w st)) = mockJobs st"
      "registry (snd (submitJob lib env cfg jobType owner input seed w st)) = registry st"
  | (coordinator) enc sig where
      "configured (provingServiceUrl cfg)"
      "encryptPayload lib (randomBytes env 12) input (normalizeKey lib seed) = Inr enc"
      "fst (submitJob lib env cfg jobType owner input seed w st) =
         Inr \<lparr>jobId = spec_derive_id lib (hashCommitment lib (Bytes (ciphertext enc))) owner,
              txSig = sig\<rparr>"
      "mockJobs (snd (submitJob lib env cfg jobType owner input seed w st)) = mockJobs st"
      "registry (snd (submitJob lib env cfg jobType owner input seed w st)) = registry st"
  | (mock) enc sig where
      "\<not> configured (provingServiceUrl cfg)"
      "encryptPayload lib (randomBytes env 12) input (normalizeKey lib seed) = Inr enc"
      "fst (submitJob lib env cfg jobType owner input seed w st) =
         Inr \<lparr>jobId = spec_derive_id lib (hashCommitment lib (Bytes (ciphertext enc))) owner,
              txSig = sig\<rparr>"
      "mockJobs (snd (submitJob lib env cfg jobType owner input seed w st)) =
         (mockJobs st)
           (spec_derive_id lib (hashCommitment lib (Bytes (ciphertext enc))) owner \<mapsto>
              pending_record lib env jobType owner enc)"
      "registry (snd (submitJob lib env cfg jobType owner input seed w st)) = registry st"
proof (cases "registry st jobType")
  case None
  then show ?thesis by (intro unregistered) (simp_all add: submitJob_def)
next
  case (Some d)
  show ?thesis
  proof (cases "encryptPayload lib (randomBytes env 12) input (normalizeKey lib seed)")
    case (Inl e)
    with Some show ?thesis by (intro crypto [of e]) (simp_all add: submitJob_def)
  next
    case (Inr enc)
    define c where "c = hashCommitment lib (Bytes (ciphertext enc))"
    define jid where "jid = take 32 (hashCommitment lib (Text (c @ owner)))"
    define operation where "operation =
      JObj [(''op'', JStr ''submit_job''), (''jobId'', JStr jid), (''commitment'', JStr c),
            (''type'', JStr jobType)]"
    show ?thesis
    proof (cases "configured (computeProgramId cfg) \<and> w \<noteq> None")
      case False
      show ?thesis
      proof (cases "configured (provingServiceUrl cfg)")
        case True
        with Some Inr False show ?thesis
          by (intro coordinator [of enc None])
            (auto simp add: submitJob_def Let_def log_effect_def spec_derive_id_def)
      next
        case nc: False
        with Some Inr False show ?thesis
          by (intro mock [of enc None])
            (auto simp add: submitJob_def Let_def spec_derive_id_def pending_record_def)
      qed
    next
      case True
      obtain r st1 where
        send: "sendOperation lib env cfg (the (computeProgramId cfg)) (the w) operation st = (r, st1)"
        by (cases "sendOperation lib env cfg (the (computeProgramId cfg)) (the w) operation st")
      note fr = sendOperation_frame [OF send]
      show ?thesis
      proof (cases r)
        case (Inl e)
        with Some Inr True send fr show ?thesis
          by (intro chain [of enc])
            (auto simp add: submitJob_def Let_def operation_def jid_def c_def spec_derive_id_def)
      next
        case sig: (Inr sig)
        show ?thesis
        proof (cases "configured (provingServiceUrl cfg)")
          case c: True
          with Some Inr True send fr sig show ?thesis
            by (intro coordinator [of enc "Some sig"])
              (auto simp add: submitJob_def Let_def operation_def jid_def c_def
                   spec_derive_id_def log_effect_def)
        next
          case nc: False
          with Some Inr True send fr sig show ?thesis
            by (intro mock [of enc "Some sig"])
              (auto simp add: submitJob_def Let_def operation_def jid_def c_def
                spec_derive_id_def pending_record_def)
        qed
      qed
    qed
  qed
qed


lemma submitJob_mockJobs:
  "mockJobs (snd (submitJob lib env cfg jobType owner input seed w st)) = mockJobs st \<or>
   (\<exists>enc sig.
      fst (submitJob lib env cfg jobType owner input seed w st) =
        Inr \<lparr>jobId = spec_derive_id lib (hashCommitment lib (Bytes (ciphertext enc))) owner,
             txSig = sig\<rparr> \<and>
      mockJobs (snd (submitJob lib env cfg jobType owner input seed w st)) =
      (mockJobs st)
        (spec_derive_id lib (hashCommitment lib (Bytes (ciphertext enc))) owner \<mapsto>
           pending_record lib env jobType owner enc))"
  by (cases rule: submitJob_cases [where st = st and jobType = jobType and lib = lib
        and env = env and input = input and seed = seed and cfg = cfg and w = w
        and owner = owner]) auto

lemma step_mockJobs:
  "mockJobs (step lib cfg x st) = mockJobs st \<or>
   (\<exists>env jobType owner input seed w enc sig.
      x = OpSubmitJob env jobType owner input seed w \<and>
      fst (submitJob lib env cfg jobType owner input seed w st) =
        Inr \<lparr>jobId = spec_derive_id lib (hashCommitment lib (Bytes (ciphertext enc))) owner,
             txSig = sig\<rparr> \<and>
      mockJobs (step lib cfg x st) =
        (mockJobs st)
          (spec_derive_id lib (hashCommitment lib (Bytes (ciphertext enc))) owner \<mapsto>
             pending_record lib env jobType owner enc)) \<or>
   (\<exists>jid ep r ref.
      x = OpSetMockResult jid ep \<and> mockJobs st jid = Some r \<and>
      mockJobs (step lib cfg x st) =
        (mockJobs st)(jid \<mapsto> r\<lparr>job_resultRef := Some ref, job_status := COMPLETED\<rparr>))"
proof (cases x)
  case (OpRegisterJobType d)
  then show ?thesis by (simp add: registerJobType_mockJobs)
next
  case (OpSubmitJob env jobType owner input seed w)
  then show ?thesis
    using submitJob_mockJobs [of lib env cfg jobType owner input seed w st] by auto
next
  case (OpGetJobStatus env jid)
  then show ?thesis by (simp add: getJobStatus_mockJobs)
next
  case (OpFetchResult env jid seed)
  then show ?thesis by (simp add: fetchResult_mockJobs)
next
  case (OpSetMockResult jid ep)
  then show ?thesis using setMockResult_mockJobs [of lib jid ep st] by auto
qed

lemma pending_record_ok: "mock_record_ok (pending_record lib env jobType owner enc)"
  by (simp add: mock_record_ok_def pending_record_def)

lemma step_invariant:
  assumes "\<forall>jid r. mockJobs st jid = Some r \<longrightarrow> mock_record_ok r"
  shows "\<forall>jid r. mockJobs (step lib cfg x st) jid = Some r \<longrightarrow> mock_record_ok r"
proof (intro allI impI)
  fix jid r
  assume r: "mockJobs (step lib cfg x st) jid = Some r"
  have completed: "mock_record_ok (r0\<lparr>job_resultRef := Some ref, job_status := COMPLETED\<rparr>)"
    for r0 :: JobRecord and ref
    by (simp add: mock_record_ok_def)
  from step_mockJobs [of lib cfg x st] r assms show "mock_record_ok r"
    by (auto simp add: pending_record_ok completed split: if_splits)
qed

lemma run_invariant:
  assumes "\<forall>jid r. mockJobs st jid = Some r \<longrightarrow> mock_record_ok r"
  shows "\<forall>jid r. mockJobs (run lib cfg st ops) jid = Some r \<longrightarrow> mock_record_ok r"
  using assms
proof (induction ops arbitrary: st)
  case Nil
  then show ?case by simp
next
  case (Cons x xs)
  from step_invariant [OF Cons.prems] have
    "\<forall>jid r. mockJobs (step lib cfg x st) jid = Some r \<longrightarrow> mock_record_ok r" .
  from Cons.IH [OF this] show ?case by simp
qed

lemma mock_record_ok_status:
  "mock_record_ok r \<Longrightarrow> job_status r \<noteq> RUNNING \<and> job_status r \<noteq> FAILED"
  by (auto simp add: mock_record_ok_def)

subsection \<open>C7: the statuses of the mock store\<close>

text \<open>
  C7, amended. After any sequence of calls on a fresh client, every record of the mock job
  store is \<open>PENDING\<close> without a result or \<open>COMPLETED\<close> with one, never \<open>RUNNING\<close> or
  \<open>FAILED\<close>. With no coordinator configured, a \<^verbatim>\<open>submitJob\<close> that returns has stored a
  \<open>PENDING\<close> record without a result under the id it returns. There are two transitions,
  not one: when a call changes the status stored under an id, the call is the test-only
  setter for that id and the record is now \<open>COMPLETED\<close> with a result, or it is a
  \<^verbatim>\<open>submitJob\<close> that returned this very id, having derived it again, and put its fresh
  \<open>PENDING\<close> record in the place of the one stored there. No call removes a record. (As stated, with the setter as
  the only transition, C7 fails: a second submission of the same ciphertext and owner
  takes a \<open>COMPLETED\<close> record back to \<open>PENDING\<close> and drops its result, as evaluated in the
  last section.)
\<close>

theorem mock_store_statuses:
  "(\<forall>jid r. mockJobs (run lib cfg initial_state ops) jid = Some r \<longrightarrow>
      mock_record_ok r \<and> job_status r \<noteq> RUNNING \<and> job_status r \<noteq> FAILED) \<and>
   (\<not> configured (provingServiceUrl cfg) \<and>
    fst (submitJob lib env cfg jobType owner input seed w st) = Inr out \<longrightarrow>
      (\<exists>r. mockJobs (snd (submitJob lib env cfg jobType owner input seed w st)) (jobId out) = Some r \<and>
           job_status r = PENDING \<and> job_resultRef r = None)) \<and>
   (\<forall>jid r r'. mockJobs st jid = Some r \<and> mockJobs (step lib cfg x st) jid = Some r' \<and>
      job_status r' \<noteq> job_status r \<longrightarrow>
        ((\<exists>ep. x = OpSetMockResult jid ep) \<and> job_status r' = COMPLETED \<and>
           job_resultRef r' \<noteq> None) \<or>
        ((\<exists>env' jobType' owner' input' seed' w' out.
             x = OpSubmitJob env' jobType' owner' input' seed' w' \<and>
             fst (submitJob lib env' cfg jobType' owner' input' seed' w' st) = Inr out \<and>
             jobId out = jid) \<and>
           job_status r' = PENDING \<and> job_resultRef r' = None)) \<and>
   (\<forall>jid. mockJobs st jid \<noteq> None \<longrightarrow> mockJobs (step lib cfg x st) jid \<noteq> None)"
proof (intro conjI)
  have "\<forall>jid r. mockJobs initial_state jid = Some r \<longrightarrow> mock_record_ok r"
    by (simp add: initial_state_def)
  from run_invariant [OF this] show
    "\<forall>jid r. mockJobs (run lib cfg initial_state ops) jid = Some r \<longrightarrow>
      mock_record_ok r \<and> job_status r \<noteq> RUNNING \<and> job_status r \<noteq> FAILED"
    using mock_record_ok_status by blast
next
  show "\<not> configured (provingServiceUrl cfg) \<and>
    fst (submitJob lib env cfg jobType owner input seed w st) = Inr out \<longrightarrow>
      (\<exists>r. mockJobs (snd (submitJob lib env cfg jobType owner input seed w st)) (jobId out) = Some r \<and>
           job_status r = PENDING \<and> job_resultRef r = None)"
    by (cases rule: submitJob_cases [where st = st and jobType = jobType and lib = lib
          and env = env and input = input and seed = seed and cfg = cfg and w = w
          and owner = owner])
      (auto simp add: pending_record_def)
next
  show "\<forall>jid r r'. mockJobs st jid = Some r \<and> mockJobs (step lib cfg x st) jid = Some r' \<and>
      job_status r' \<noteq> job_status r \<longrightarrow>
        ((\<exists>ep. x = OpSetMockResult jid ep) \<and> job_status r' = COMPLETED \<and>
           job_resultRef r' \<noteq> None) \<or>
        ((\<exists>env' jobType' owner' input' seed' w' out.
             x = OpSubmitJob env' jobType' owner' input' seed' w' \<and>
             fst (submitJob lib env' cfg jobType' owner' input' seed' w' st) = Inr out \<and>
             jobId out = jid) \<and>
           job_status r' = PENDING \<and> job_resultRef r' = None)"
    using step_mockJobs [of lib cfg x st]
    by (auto simp add: pending_record_def split: if_splits)
next
  show "\<forall>jid. mockJobs st jid \<noteq> None \<longrightarrow> mockJobs (step lib cfg x st) jid \<noteq> None"
    using step_mockJobs [of lib cfg x st] by auto
qed

subsection \<open>The mock path, call by call\<close>

lemma normalizeKey_length: "digest_32 lib \<Longrightarrow> length (normalizeKey lib seed) = 32"
  by (simp add: normalizeKey_def deriveKeyFromSeed_def sha256_def digest_32_def)

lemma deriveKeyFromSeed_length: "digest_32 lib \<Longrightarrow> length (deriveKeyFromSeed lib seed) = 32"
  by (simp add: deriveKeyFromSeed_def sha256_def digest_32_def)

lemma getJobStatus_mock:
  assumes "\<not> configured (provingServiceUrl cfg)"
  shows "getJobStatus env cfg jid st =
           (case mockJobs st jid of
              None \<Rightarrow> (Inl (NotFoundError ''job not found''), st)
            | Some job \<Rightarrow> (Inr (JStr (status_name (job_status job))), st))"
  using assms by (simp add: getJobStatus_def Let_def)

lemma epOr_JStr: "epOr (JStr x) = JStr x"
  by (simp add: epOr_def)

lemma read_envelope_stored:
  assumes "\<forall>bs. string_to_bytes lib (bytes_to_string lib bs ''base64'') ''base64'' = bs"
  shows "read_envelope lib (\<lambda>v. epOr (epOr v))
           (JObj [(''iv'', JStr (bytes_to_string lib i ''base64'')),
                  (''tag'', JStr (bytes_to_string lib t ''base64'')),
                  (''ciphertext'', JStr (bytes_to_string lib c ''base64''))]) =
         Inr \<lparr>alg = ''AES-GCM'', iv = i, ciphertext = c, tag = t\<rparr>"
  using assms by (simp add: read_envelope_def epOr_JStr buffer_from_def)

lemma setMockResult_stored:
  assumes "mockJobs st jid = Some r"
    and "json_stringify lib
           (JObj [(''iv'', JStr (bytes_to_string lib (iv ep) ''base64'')),
                  (''tag'', JStr (bytes_to_string lib (tag ep) ''base64'')),
                  (''ciphertext'', JStr (bytes_to_string lib (ciphertext ep) ''base64''))]) = JStr s"
  shows "setMockResult lib jid ep st =
           (Inr (),
            st\<lparr>mockJobs := (mockJobs st)(jid \<mapsto>
                  r\<lparr>job_resultRef :=
                      Some (bytes_to_string lib (string_to_bytes lib s ''utf8'') ''base64''),
                    job_status := COMPLETED\<rparr>)\<rparr>)"
  using assms by (simp add: setMockResult_def buffer_from_def)

lemma fetchResult_stored:
  assumes nocoord: "\<not> configured (provingServiceUrl cfg)"
    and codecs: "codecs_lossless lib"
    and job: "mockJobs st jid = Some r"
    and js: "json_stringify lib
           (JObj [(''iv'', JStr (bytes_to_string lib (iv ep) ''base64'')),
                  (''tag'', JStr (bytes_to_string lib (tag ep) ''base64'')),
                  (''ciphertext'', JStr (bytes_to_string lib (ciphertext ep) ''base64''))]) = JStr s"
    and ref: "job_resultRef r =
                Some (bytes_to_string lib (string_to_bytes lib s ''utf8'') ''base64'')"
    and alg: "alg ep = ''AES-GCM''"
  shows "fetchResult lib env cfg jid seed st =
           (decryptPayload lib ep (deriveKeyFromSeed lib seed), st)"
proof -
  from codecs have
    b64: "\<forall>bs. string_to_bytes lib (bytes_to_string lib bs ''base64'') ''base64'' = bs"
    and ne: "\<forall>bs. bs \<noteq> [] \<longrightarrow> bytes_to_string lib bs ''base64'' \<noteq> []"
    and obj: "\<exists>s'. json_stringify lib
           (JObj [(''iv'', JStr (bytes_to_string lib (iv ep) ''base64'')),
                  (''tag'', JStr (bytes_to_string lib (tag ep) ''base64'')),
                  (''ciphertext'', JStr (bytes_to_string lib (ciphertext ep) ''base64''))]) = JStr s' \<and>
        string_to_bytes lib s' ''utf8'' \<noteq> [] \<and>
        json_parse lib (bytes_to_string lib (string_to_bytes lib s' ''utf8'') ''utf8'') =
          Inr (JObj [(''iv'', JStr (bytes_to_string lib (iv ep) ''base64'')),
                  (''tag'', JStr (bytes_to_string lib (tag ep) ''base64'')),
                  (''ciphertext'', JStr (bytes_to_string lib (ciphertext ep) ''base64''))])"
    unfolding codecs_lossless_def by blast+
  from obj js have
    nonempty: "string_to_bytes lib s ''utf8'' \<noteq> []"
    and parse: "json_parse lib (bytes_to_string lib (string_to_bytes lib s ''utf8'') ''utf8'') =
          Inr (JObj [(''iv'', JStr (bytes_to_string lib (iv ep) ''base64'')),
                  (''tag'', JStr (bytes_to_string lib (tag ep) ''base64'')),
                  (''ciphertext'', JStr (bytes_to_string lib (ciphertext ep) ''base64''))])"
    by auto
  from ne nonempty have
    truthy_ref: "bytes_to_string lib (string_to_bytes lib s ''utf8'') ''base64'' \<noteq> []"
    by blast
  have ep: "\<lparr>alg = ''AES-GCM'', iv = iv ep, ciphertext = ciphertext ep, tag = tag ep\<rparr> = ep"
    using alg by simp
  show ?thesis
    using nocoord job ref truthy_ref b64 parse
    by (simp add: fetchResult_def Let_def read_envelope_stored ep)
qed

lemma createState_Inr:
  assumes "fst (createState lib env cfg schemaId owner plain seed w st) = Inr (h, e)"
  shows "encryptPayload lib (randomBytes env 12) plain (normalizeKey lib seed) = Inr e \<and>
         h = \<lparr>handle_id = take 32 (hashCommitment lib
                  (Text (hashCommitment lib (Bytes (ciphertext e)) @ owner))),
              handle_commitment = hashCommitment lib (Bytes (ciphertext e)),
              handle_owner = owner\<rparr>"
  using assms
  by (auto simp add: createState_def Let_def split: sum.splits prod.splits if_splits)

lemma updateState_Inr:
  assumes "fst (updateState lib env cfg schemaId owner plain seed sid prev w st) = Inr (h, e)"
  shows "encryptPayload lib (randomBytes env 12) plain (normalizeKey lib seed) = Inr e"
  using assms
  by (auto simp add: updateState_def Let_def split: sum.splits prod.splits if_splits)

lemma createState_returns:
  assumes "schemaRegistry st schemaId \<noteq> None"
    and "encryptPayload lib (randomBytes env 12) plain (normalizeKey lib seed) = Inr enc"
    and "instruction_accepted lib env cfg (programId cfg) w
           (JObj [(''op'', JStr ''create''),
                  (''commitment'', JStr (hashCommitment lib (Bytes (ciphertext enc))))]) st"
  shows "fst (createState lib env cfg schemaId owner plain seed w st) =
           Inr (\<lparr>handle_id = spec_derive_id lib (hashCommitment lib (Bytes (ciphertext enc))) owner,
                 handle_commitment = hashCommitment lib (Bytes (ciphertext enc)),
                 handle_owner = owner\<rparr>, enc)"
proof (cases "configured (programId cfg) \<and> w \<noteq> None")
  case False
  with assms(1,2) show ?thesis
    by (auto simp add: createState_def getSchema_def Let_def spec_derive_id_def)
next
  case True
  obtain r st1 where
    send: "sendOperation lib env cfg (the (programId cfg)) (the w)
             (JObj [(''op'', JStr ''create''),
                    (''commitment'', JStr (hashCommitment lib (Bytes (ciphertext enc))))]) st =
           (r, st1)"
    by (cases "sendOperation lib env cfg (the (programId cfg)) (the w)
             (JObj [(''op'', JStr ''create''),
                    (''commitment'', JStr (hashCommitment lib (Bytes (ciphertext enc))))]) st")
  with assms(3) True obtain sig where "r = Inr sig"
    by (cases r) (auto simp add: instruction_accepted_def)
  with assms(1,2) True send show ?thesis
    by (auto simp add: createState_def getSchema_def Let_def spec_derive_id_def)
qed

lemma updateState_returns:
  assumes "schemaRegistry st schemaId \<noteq> None"
    and "encryptPayload lib (randomBytes env 12) plain (normalizeKey lib seed) = Inr enc"
    and "instruction_accepted lib env cfg (programId cfg) w
           (JObj [(''op'', JStr ''update''), (''prev'', JStr prev),
                  (''next'', JStr (hashCommitment lib (Bytes (ciphertext enc))))]) st"
  shows "fst (updateState lib env cfg schemaId owner plain seed sid prev w st) =
           Inr (\<lparr>handle_id =
                   (case sid of
                      Some given \<Rightarrow> given
                    | None \<Rightarrow>
                        spec_derive_id lib (hashCommitment lib (Bytes (ciphertext enc))) owner),
                 handle_commitment = hashCommitment lib (Bytes (ciphertext enc)),
                 handle_owner = owner\<rparr>, enc)"
proof (cases "configured (programId cfg) \<and> w \<noteq> None")
  case False
  with assms(1,2) show ?thesis
    by (auto simp add: updateState_def getSchema_def Let_def spec_derive_id_def
        split: option.splits)
next
  case True
  obtain r st1 where
    send: "sendOperation lib env cfg (the (programId cfg)) (the w)
             (JObj [(''op'', JStr ''update''), (''prev'', JStr prev),
                    (''next'', JStr (hashCommitment lib (Bytes (ciphertext enc))))]) st =
           (r, st1)"
    by (cases "sendOperation lib env cfg (the (programId cfg)) (the w)
             (JObj [(''op'', JStr ''update''), (''prev'', JStr prev),
                    (''next'', JStr (hashCommitment lib (Bytes (ciphertext enc))))]) st")
  with assms(3) True obtain sig where "r = Inr sig"
    by (cases r) (auto simp add: instruction_accepted_def)
  with assms(1,2) True send show ?thesis
    by (auto simp add: updateState_def getSchema_def Let_def spec_derive_id_def
        split: option.splits)
qed

lemma submitJob_sent:
  assumes "registry st jobType = Some d"
    and "encryptPayload lib (randomBytes env 12) input (normalizeKey lib seed) = Inr enc"
    and "configured (computeProgramId cfg)"
    and "fst (sendOperation lib env cfg (the (computeProgramId cfg)) w
           (JObj [(''op'', JStr ''submit_job''),
                  (''jobId'', JStr (spec_derive_id lib
                                     (hashCommitment lib (Bytes (ciphertext enc))) owner)),
                  (''commitment'', JStr (hashCommitment lib (Bytes (ciphertext enc)))),
                  (''type'', JStr jobType)]) st) = Inr sig"
  shows "fst (submitJob lib env cfg jobType owner input seed (Some w) st) =
           Inr \<lparr>jobId = spec_derive_id lib (hashCommitment lib (Bytes (ciphertext enc))) owner,
                txSig = Some sig\<rparr>"
proof -
  obtain r st1 where
    send: "sendOperation lib env cfg (the (computeProgramId cfg)) w
           (JObj [(''op'', JStr ''submit_job''),
                  (''jobId'', JStr (spec_derive_id lib
                                     (hashCommitment lib (Bytes (ciphertext enc))) owner)),
                  (''commitment'', JStr (hashCommitment lib (Bytes (ciphertext enc)))),
                  (''type'', JStr jobType)]) st = (r, st1)"
    by (cases "sendOperation lib env cfg (the (computeProgramId cfg)) w
           (JObj [(''op'', JStr ''submit_job''),
                  (''jobId'', JStr (spec_derive_id lib
                                     (hashCommitment lib (Bytes (ciphertext enc))) owner)),
                  (''commitment'', JStr (hashCommitment lib (Bytes (ciphertext enc)))),
                  (''type'', JStr jobType)]) st")
  with assms(4) have "r = Inr sig" by simp
  with assms(1-3) send show ?thesis
    by (auto simp add: submitJob_def Let_def spec_derive_id_def)
qed

lemma submitJob_Inr:
  assumes "fst (submitJob lib env cfg jobType owner input seed w st) = Inr out"
  shows "\<exists>enc. encryptPayload lib (randomBytes env 12) input (normalizeKey lib seed) = Inr enc \<and>
           jobId out = spec_derive_id lib (hashCommitment lib (Bytes (ciphertext enc))) owner \<and>
           (\<not> configured (provingServiceUrl cfg) \<longrightarrow>
              mockJobs (snd (submitJob lib env cfg jobType owner input seed w st)) (jobId out) =
                Some (pending_record lib env jobType owner enc))"
  using assms
  by (cases rule: submitJob_cases [where st = st and jobType = jobType and lib = lib
        and env = env and input = input and seed = seed and cfg = cfg and w = w
        and owner = owner]) auto

subsection \<open>C2: the life of a job on the mock path\<close>

text \<open>
  C2, amended. With no coordinator URL configured, for a registered job type, any owner
  and seed, and any input for which \<^verbatim>\<open>JSON.stringify\<close> returns a string, \<^verbatim>\<open>submitJob\<close>
  returns a job id and \<^verbatim>\<open>getJobStatus\<close> of that id returns \<^verbatim>\<open>"PENDING"\<close>; after
  \<^verbatim>\<open>_setMockResult\<close> with an envelope that encrypts a JSON-serializable result under the key
  the mock path derives from the seed, \<^verbatim>\<open>deriveKeyFromSeed(seed)\<close>, \<^verbatim>\<open>getJobStatus\<close> returns
  \<^verbatim>\<open>"COMPLETED"\<close> and \<^verbatim>\<open>fetchResult\<close> with that seed returns the result. The calls run one
  after the other, each on the state the previous one left. This is for a platform whose
  digest has 32 bytes, whose AES-256-GCM decrypts what it encrypted and whose base64 and
  JSON lose nothing of the stored reference; and where \<^verbatim>\<open>submitJob\<close> sends its
  \<^verbatim>\<open>submit_job\<close> instruction (a compute program id is configured and a wallet adapter is
  given), for that one instruction being accepted. (As stated, for any input, C2 fails: the input
  \<^verbatim>\<open>undefined\<close> has no JSON text and \<^verbatim>\<open>submitJob\<close> fails with a \<open>CryptoError\<close>, as
  evaluated in the last section.)
\<close>

theorem mock_job_lifecycle:
  assumes nocoord: "\<not> configured (provingServiceUrl cfg)"
    and reg: "registry st jobType \<noteq> None"
    and digest: "digest_32 lib" and aead: "aead_correct lib" and codecs: "codecs_lossless lib"
    and accepted:
      "\<And>enc. encryptPayload lib (randomBytes env 12) input (normalizeKey lib seed) = Inr enc \<Longrightarrow>
         instruction_accepted lib env cfg (computeProgramId cfg) w
           (JObj [(''op'', JStr ''submit_job''),
                  (''jobId'', JStr (spec_derive_id lib
                                     (hashCommitment lib (Bytes (ciphertext enc))) owner)),
                  (''commitment'', JStr (hashCommitment lib (Bytes (ciphertext enc)))),
                  (''type'', JStr jobType)]) st"
    and rnd: "length (randomBytes env 12) = 12"
    and input: "json_stringify lib input = JStr text"
    and nonce: "length nonce = 12"
    and result: "json_serializable lib result"
  shows "\<exists>out envelope.
           fst (submitJob lib env cfg jobType owner input seed w st) = Inr out \<and>
           encryptPayload lib nonce result (deriveKeyFromSeed lib seed) = Inr envelope \<and>
           (let st1 = snd (submitJob lib env cfg jobType owner input seed w st);
                status1 = getJobStatus env1 cfg (jobId out) st1;
                set2 = setMockResult lib (jobId out) envelope (snd status1);
                status3 = getJobStatus env3 cfg (jobId out) (snd set2);
                fetched = fetchResult lib env4 cfg (jobId out) seed (snd status3)
            in fst status1 = Inr (JStr ''PENDING'') \<and>
               fst set2 = Inr () \<and>
               fst status3 = Inr (JStr ''COMPLETED'') \<and>
               fst fetched = Inr result)"
proof -
  from encryptPayload_ok [OF aead normalizeKey_length [OF digest] rnd input]
  obtain c0 t0 where
    enc0: "encryptPayload lib (randomBytes env 12) input (normalizeKey lib seed) =
             Inr \<lparr>alg = ''AES-GCM'', iv = randomBytes env 12, ciphertext = c0, tag = t0\<rparr>"
    by blast
  from roundtrip [OF aead deriveKeyFromSeed_length [OF digest] nonce result]
  obtain envelope where
    envelope: "encryptPayload lib nonce result (deriveKeyFromSeed lib seed) = Inr envelope"
    and decrypted: "decryptPayload lib envelope (deriveKeyFromSeed lib seed) = Inr result"
    by blast
  from encryptPayload_Inr [OF envelope] have alg: "alg envelope = ''AES-GCM''" by simp
  from codecs obtain s where
    s: "json_stringify lib
           (JObj [(''iv'', JStr (bytes_to_string lib (iv envelope) ''base64'')),
                  (''tag'', JStr (bytes_to_string lib (tag envelope) ''base64'')),
                  (''ciphertext'', JStr (bytes_to_string lib (ciphertext envelope) ''base64''))]) =
        JStr s"
    unfolding codecs_lossless_def by blast
  show ?thesis
  proof (cases rule: submitJob_cases [where st = st and jobType = jobType and lib = lib
        and env = env and input = input and seed = seed and cfg = cfg and w = w
        and owner = owner])
    case unregistered
    with reg show ?thesis by simp
  next
    case (crypto e)
    with enc0 show ?thesis by simp
  next
    case (chain e)
    from accepted [OF chain(3)] chain(1,2,4) show ?thesis
      by (simp add: instruction_accepted_def)
  next
    case (coordinator enc sig)
    with nocoord show ?thesis by simp
  next
    case (mock enc sig)
    define jid where "jid = spec_derive_id lib (hashCommitment lib (Bytes (ciphertext enc))) owner"
    define st1 where "st1 = snd (submitJob lib env cfg jobType owner input seed w st)"
    define r where "r = pending_record lib env jobType owner enc"
    define r' where "r' = r\<lparr>job_resultRef :=
                      Some (bytes_to_string lib (string_to_bytes lib s ''utf8'') ''base64''),
                    job_status := COMPLETED\<rparr>"
    define st2 where "st2 = st1\<lparr>mockJobs := (mockJobs st1)(jid \<mapsto> r')\<rparr>"
    have out: "fst (submitJob lib env cfg jobType owner input seed w st) =
                 Inr \<lparr>jobId = jid, txSig = sig\<rparr>"
      using mock(3) by (simp add: jid_def)
    have job1: "mockJobs st1 jid = Some r"
      using mock(4) by (simp add: st1_def jid_def r_def)
    have status1: "getJobStatus env1 cfg jid st1 = (Inr (JStr ''PENDING''), st1)"
      using job1 by (simp add: getJobStatus_mock [OF nocoord] r_def pending_record_def)
    have set2: "setMockResult lib jid envelope st1 = (Inr (), st2)"
      using setMockResult_stored [OF job1 s] by (simp add: st2_def r'_def)
    have job2: "mockJobs st2 jid = Some r'"
      by (simp add: st2_def)
    have status3: "getJobStatus env3 cfg jid st2 = (Inr (JStr ''COMPLETED''), st2)"
      using job2 by (simp add: getJobStatus_mock [OF nocoord] r'_def)
    have ref: "job_resultRef r' =
                Some (bytes_to_string lib (string_to_bytes lib s ''utf8'') ''base64'')"
      by (simp add: r'_def)
    have fetched: "fetchResult lib env4 cfg jid seed st2 = (Inr result, st2)"
      using fetchResult_stored [OF nocoord codecs job2 s ref alg] decrypted by simp
    show ?thesis
      using out envelope status1 set2 status3 fetched
      by (intro exI [of _ "\<lparr>jobId = jid, txSig = sig\<rparr>"] exI [of _ envelope])
        (simp add: Let_def st1_def [symmetric])
  qed
qed

lemma spec_derive_id_length:
  assumes "digest_32 lib" and "hex_doubles lib"
  shows "length (spec_derive_id lib c ow) = 32"
  using assms
  by (simp add: spec_derive_id_def hashCommitment_def toHex_def sha256_def digest_32_def
      hex_doubles_def)

subsection \<open>C8: the derived ids\<close>

text \<open>
  C8. The state id that \<^verbatim>\<open>createState\<close> returns and the job id that \<^verbatim>\<open>submitJob\<close> returns
  are both the specification's \<^verbatim>\<open>truncate(hash(commitment ++ owner), 32_chars)\<close>, the
  first 32 characters of \<^verbatim>\<open>hashCommitment(commitment + owner)\<close>, where the commitment is
  \<^verbatim>\<open>hashCommitment\<close> of the ciphertext: one function of the commitment and the owner, so
  equal pairs give equal ids. Nothing is looked up before the id is used: on the mock path
  the record stored under the id is the fresh pending one, whatever the store held there.
  With a 32-byte digest written as two hexadecimal characters a byte, the id has exactly
  32 characters.
\<close>

theorem id_derivation:
  "(fst (createState lib env cfg schemaId owner plain seed w st) = Inr (h, e) \<longrightarrow>
      handle_commitment h = hashCommitment lib (Bytes (ciphertext e)) \<and>
      handle_owner h = owner \<and>
      handle_id h = spec_derive_id lib (handle_commitment h) (handle_owner h)) \<and>
   (fst (submitJob lib env cfg jobType owner input seed w st) = Inr out \<longrightarrow>
      (\<exists>enc. encryptPayload lib (randomBytes env 12) input (normalizeKey lib seed) = Inr enc \<and>
         jobId out = spec_derive_id lib (hashCommitment lib (Bytes (ciphertext enc))) owner)) \<and>
   (\<not> configured (provingServiceUrl cfg) \<and>
    fst (submitJob lib env cfg jobType owner input seed w st) = Inr out \<longrightarrow>
      (\<exists>r. mockJobs (snd (submitJob lib env cfg jobType owner input seed w st)) (jobId out) = Some r \<and>
         job_id r = jobId out \<and> job_owner r = owner \<and> job_status r = PENDING \<and>
         job_resultRef r = None \<and>
         job_id r = spec_derive_id lib (job_commitment r) (job_owner r))) \<and>
   (digest_32 lib \<and> hex_doubles lib \<longrightarrow> length (spec_derive_id lib c o') = 32)"
proof -
  have state: "handle_commitment h = hashCommitment lib (Bytes (ciphertext e)) \<and>
      handle_owner h = owner \<and>
      handle_id h = spec_derive_id lib (handle_commitment h) (handle_owner h)"
    if "fst (createState lib env cfg schemaId owner plain seed w st) = Inr (h, e)"
    using createState_Inr [OF that] by (simp add: spec_derive_id_def)
  have job: "\<exists>enc. encryptPayload lib (randomBytes env 12) input (normalizeKey lib seed) = Inr enc \<and>
         jobId out = spec_derive_id lib (hashCommitment lib (Bytes (ciphertext enc))) owner"
    if "fst (submitJob lib env cfg jobType owner input seed w st) = Inr out"
    using submitJob_Inr [OF that] by blast
  have stored: "\<exists>r. mockJobs (snd (submitJob lib env cfg jobType owner input seed w st)) (jobId out) = Some r \<and>
         job_id r = jobId out \<and> job_owner r = owner \<and> job_status r = PENDING \<and>
         job_resultRef r = None \<and>
         job_id r = spec_derive_id lib (job_commitment r) (job_owner r)"
    if "\<not> configured (provingServiceUrl cfg)"
      and "fst (submitJob lib env cfg jobType owner input seed w st) = Inr out"
    using submitJob_Inr [OF that(2)] that(1) by (auto simp add: pending_record_def)
  from state job stored spec_derive_id_length [of lib c o'] show ?thesis by blast
qed

subsection \<open>C3: the two key derivations of \<^verbatim>\<open>fetchResult\<close>\<close>

text \<open>
  C3. The mock path of \<^verbatim>\<open>fetchResult\<close> decrypts the stored envelope under
  \<^verbatim>\<open>deriveKeyFromSeed(seed)\<close>; the coordinator path decrypts the served envelope under
  \<^verbatim>\<open>normalizeKey(seed)\<close>, as \<^verbatim>\<open>decryptWithSeed\<close> does. \<^verbatim>\<open>createState\<close> and \<^verbatim>\<open>updateState\<close>
  encrypt under \<^verbatim>\<open>normalizeKey(seed)\<close>: for a registered schema, when the encryption of the
  value under \<^verbatim>\<open>normalizeKey(seed)\<close> gives an envelope and the instruction, where one is
  sent, is accepted, each returns that envelope with its handle, and neither ever returns
  another envelope. For a 32-byte seed \<open>s\<close> whose digest is not \<open>s\<close> itself,
  \<^verbatim>\<open>normalizeKey(s)\<close> is \<open>s\<close> and differs from \<^verbatim>\<open>deriveKeyFromSeed(s)\<close>: the two paths of
  \<^verbatim>\<open>fetchResult\<close> decrypt under different keys.
\<close>

theorem fetchResult_key_derivations:
  "(\<not> configured (provingServiceUrl cfg) \<and> mockJobs st jid = Some job \<and>
    configured (job_resultRef job) \<and>
    json_parse lib
      (bytes_to_string lib (string_to_bytes lib (the (job_resultRef job)) ''base64'') ''utf8'') =
        Inr payload \<and>
    read_envelope lib (\<lambda>v. epOr (epOr v)) payload = Inr ep \<longrightarrow>
      fst (fetchResult lib env cfg jid s st) = decryptPayload lib ep (deriveKeyFromSeed lib s)) \<and>
   (configured (provingServiceUrl cfg') \<and>
    fetch env' (the (provingServiceUrl cfg') @ ''/job-result/'' @ jid) None = Inr resp \<and>
    ok resp \<and> json resp = Inr j \<and> read_envelope lib (\<lambda>v. v) j = Inr ep' \<longrightarrow>
      fst (fetchResult lib env' cfg' jid s st) = decryptPayload lib ep' (normalizeKey lib s)) \<and>
   decryptWithSeed lib ep s = decryptPayload lib ep (normalizeKey lib s) \<and>
   (schemaRegistry pst schemaId \<noteq> None \<and>
    encryptPayload lib (randomBytes penv 12) plain (normalizeKey lib s) = Inr e \<and>
    instruction_accepted lib penv pcfg (programId pcfg) w
      (JObj [(''op'', JStr ''create''),
             (''commitment'', JStr (hashCommitment lib (Bytes (ciphertext e))))]) pst \<longrightarrow>
      fst (createState lib penv pcfg schemaId owner plain s w pst) =
        Inr (\<lparr>handle_id = spec_derive_id lib (hashCommitment lib (Bytes (ciphertext e))) owner,
              handle_commitment = hashCommitment lib (Bytes (ciphertext e)),
              handle_owner = owner\<rparr>, e)) \<and>
   (schemaRegistry pst schemaId \<noteq> None \<and>
    encryptPayload lib (randomBytes penv 12) plain (normalizeKey lib s) = Inr e \<and>
    instruction_accepted lib penv pcfg (programId pcfg) w
      (JObj [(''op'', JStr ''update''), (''prev'', JStr prev),
             (''next'', JStr (hashCommitment lib (Bytes (ciphertext e))))]) pst \<longrightarrow>
      fst (updateState lib penv pcfg schemaId owner plain s sid prev w pst) =
        Inr (\<lparr>handle_id =
                (case sid of
                   Some given \<Rightarrow> given
                 | None \<Rightarrow> spec_derive_id lib (hashCommitment lib (Bytes (ciphertext e))) owner),
              handle_commitment = hashCommitment lib (Bytes (ciphertext e)),
              handle_owner = owner\<rparr>, e)) \<and>
   (fst (createState lib penv pcfg schemaId owner plain s w pst) = Inr (h1, e1) \<longrightarrow>
      encryptPayload lib (randomBytes penv 12) plain (normalizeKey lib s) = Inr e1) \<and>
   (fst (updateState lib penv pcfg schemaId owner plain s sid prev w pst) = Inr (h2, e2) \<longrightarrow>
      encryptPayload lib (randomBytes penv 12) plain (normalizeKey lib s) = Inr e2) \<and>
   (length s = 32 \<and> deriveKeyFromSeed lib s \<noteq> s \<longrightarrow>
      normalizeKey lib s = s \<and> normalizeKey lib s \<noteq> deriveKeyFromSeed lib s)"
proof -
  have mock: "fst (fetchResult lib env cfg jid s st) =
      decryptPayload lib ep (deriveKeyFromSeed lib s)"
    if "\<not> configured (provingServiceUrl cfg) \<and> mockJobs st jid = Some job \<and>
        configured (job_resultRef job) \<and>
        json_parse lib
          (bytes_to_string lib (string_to_bytes lib (the (job_resultRef job)) ''base64'') ''utf8'') =
            Inr payload \<and>
        read_envelope lib (\<lambda>v. epOr (epOr v)) payload = Inr ep"
    using that by (simp add: fetchResult_def Let_def)
  have served: "fst (fetchResult lib env' cfg' jid s st) =
      decryptPayload lib ep' (normalizeKey lib s)"
    if "configured (provingServiceUrl cfg') \<and>
        fetch env' (the (provingServiceUrl cfg') @ ''/job-result/'' @ jid) None = Inr resp \<and>
        ok resp \<and> json resp = Inr j \<and> read_envelope lib (\<lambda>v. v) j = Inr ep'"
    using that by (simp add: fetchResult_def Let_def)
  have seed: "decryptWithSeed lib ep s = decryptPayload lib ep (normalizeKey lib s)"
    by (simp add: decryptWithSeed_def)
  have created: "fst (createState lib penv pcfg schemaId owner plain s w pst) =
        Inr (\<lparr>handle_id = spec_derive_id lib (hashCommitment lib (Bytes (ciphertext e))) owner,
              handle_commitment = hashCommitment lib (Bytes (ciphertext e)),
              handle_owner = owner\<rparr>, e)"
    if "schemaRegistry pst schemaId \<noteq> None \<and>
        encryptPayload lib (randomBytes penv 12) plain (normalizeKey lib s) = Inr e \<and>
        instruction_accepted lib penv pcfg (programId pcfg) w
          (JObj [(''op'', JStr ''create''),
                 (''commitment'', JStr (hashCommitment lib (Bytes (ciphertext e))))]) pst"
    using that createState_returns by blast
  have updated: "fst (updateState lib penv pcfg schemaId owner plain s sid prev w pst) =
        Inr (\<lparr>handle_id =
                (case sid of
                   Some given \<Rightarrow> given
                 | None \<Rightarrow> spec_derive_id lib (hashCommitment lib (Bytes (ciphertext e))) owner),
              handle_commitment = hashCommitment lib (Bytes (ciphertext e)),
              handle_owner = owner\<rparr>, e)"
    if "schemaRegistry pst schemaId \<noteq> None \<and>
        encryptPayload lib (randomBytes penv 12) plain (normalizeKey lib s) = Inr e \<and>
        instruction_accepted lib penv pcfg (programId pcfg) w
          (JObj [(''op'', JStr ''update''), (''prev'', JStr prev),
                 (''next'', JStr (hashCommitment lib (Bytes (ciphertext e))))]) pst"
    using that updateState_returns by blast
  have created_only: "encryptPayload lib (randomBytes penv 12) plain (normalizeKey lib s) = Inr e1"
    if "fst (createState lib penv pcfg schemaId owner plain s w pst) = Inr (h1, e1)"
    using createState_Inr [OF that] by simp
  have updated_only: "encryptPayload lib (randomBytes penv 12) plain (normalizeKey lib s) = Inr e2"
    if "fst (updateState lib penv pcfg schemaId owner plain s sid prev w pst) = Inr (h2, e2)"
    using updateState_Inr [OF that] .
  have keys: "normalizeKey lib s = s \<and> normalizeKey lib s \<noteq> deriveKeyFromSeed lib s"
    if "length s = 32 \<and> deriveKeyFromSeed lib s \<noteq> s"
    using that by (auto simp add: normalizeKey_def)
  from mock served seed created updated created_only updated_only keys show ?thesis
    by blast
qed

section \<open>The claims on the stand-in platform\<close>

subsection \<open>One run, step by step\<close>

lemma submitJob_offline:
  assumes "registry st jobType = Some d"
    and "encryptPayload lib (randomBytes env 12) input (normalizeKey lib seed) = Inr enc"
    and "\<not> configured (provingServiceUrl cfg)"
  shows "submitJob lib env cfg jobType owner input seed None st =
           (Inr \<lparr>jobId = spec_derive_id lib (hashCommitment lib (Bytes (ciphertext enc))) owner,
                 txSig = None\<rparr>,
            st\<lparr>mockJobs := (mockJobs st)
                 (spec_derive_id lib (hashCommitment lib (Bytes (ciphertext enc))) owner \<mapsto>
                    pending_record lib env jobType owner enc)\<rparr>)"
  using assms by (simp add: submitJob_def Let_def spec_derive_id_def pending_record_def)

lemma registry_demo: "registry demo_registered ''score'' = Some toy_job"
  by (simp add: demo_registered_def registerJobType_def toy_job_def)

lemma toy_env_nonce: "randomBytes toy_env 12 = toy_nonce"
  by (simp add: toy_env_def toy_nonce_def)

lemma toy_key_normal: "normalizeKey toy_lib toy_key = toy_key"
  by (simp add: normalizeKey_def toy_key_def)

lemma toy_offline: "\<not> configured (provingServiceUrl toy_cfg)"
  by (simp add: toy_cfg_def)

lemma demo_commitment:
  "hashCommitment toy_lib (Bytes (ciphertext toy_envelope)) =
     ''7739393939387d7b6d7a3939393939386974716b6d0101010101010101010101''"
  by code_simp

lemma demo_id:
  "spec_derive_id toy_lib
     ''7739393939387d7b6d7a3939393939386974716b6d0101010101010101010101'' ''owner1'' = demo_jid"
  by code_simp

lemma demo_pending:
  "pending_record toy_lib toy_env ''score'' ''owner1'' toy_envelope = demo_pending_record"
  by (simp add: pending_record_def demo_pending_record_def demo_commitment demo_id)
    (simp add: toy_env_def)

lemma demo_submitJob:
  "submitJob toy_lib toy_env toy_cfg ''score'' ''owner1'' toy_value toy_key None demo_registered =
     (Inr \<lparr>jobId = demo_jid, txSig = None\<rparr>,
      demo_registered\<lparr>mockJobs := (mockJobs demo_registered)(demo_jid \<mapsto> demo_pending_record)\<rparr>)"
  using submitJob_offline [OF registry_demo _ toy_offline, of toy_lib toy_env toy_value toy_key
      toy_envelope "''owner1''"]
  by (simp add: toy_env_nonce toy_key_normal toy_envelope_eq demo_commitment demo_id demo_pending)

lemma demo_submitted_record: "mockJobs demo_submitted demo_jid = Some demo_pending_record"
  by (simp add: demo_submitted_def demo_submit_def demo_submitJob)


lemma stored_reference:
  assumes codecs: "codecs_lossless lib"
    and js: "json_stringify lib
           (JObj [(''iv'', JStr (bytes_to_string lib (iv ep) ''base64'')),
                  (''tag'', JStr (bytes_to_string lib (tag ep) ''base64'')),
                  (''ciphertext'', JStr (bytes_to_string lib (ciphertext ep) ''base64''))]) = JStr s"
  shows "bytes_to_string lib (string_to_bytes lib s ''utf8'') ''base64'' \<noteq> [] \<and>
         json_parse lib
           (bytes_to_string lib
              (string_to_bytes lib
                 (bytes_to_string lib (string_to_bytes lib s ''utf8'') ''base64'') ''base64'')
              ''utf8'') =
           Inr (JObj [(''iv'', JStr (bytes_to_string lib (iv ep) ''base64'')),
                      (''tag'', JStr (bytes_to_string lib (tag ep) ''base64'')),
                      (''ciphertext'', JStr (bytes_to_string lib (ciphertext ep) ''base64''))])"
proof -
  from codecs have
    b64: "\<forall>bs. string_to_bytes lib (bytes_to_string lib bs ''base64'') ''base64'' = bs"
    and ne: "\<forall>bs. bs \<noteq> [] \<longrightarrow> bytes_to_string lib bs ''base64'' \<noteq> []"
    and obj: "\<exists>s'. json_stringify lib
           (JObj [(''iv'', JStr (bytes_to_string lib (iv ep) ''base64'')),
                  (''tag'', JStr (bytes_to_string lib (tag ep) ''base64'')),
                  (''ciphertext'', JStr (bytes_to_string lib (ciphertext ep) ''base64''))]) = JStr s' \<and>
        string_to_bytes lib s' ''utf8'' \<noteq> [] \<and>
        json_parse lib (bytes_to_string lib (string_to_bytes lib s' ''utf8'') ''utf8'') =
          Inr (JObj [(''iv'', JStr (bytes_to_string lib (iv ep) ''base64'')),
                  (''tag'', JStr (bytes_to_string lib (tag ep) ''base64'')),
                  (''ciphertext'', JStr (bytes_to_string lib (ciphertext ep) ''base64''))])"
    unfolding codecs_lossless_def by blast+
  from obj js have
    "string_to_bytes lib s ''utf8'' \<noteq> []"
    "json_parse lib (bytes_to_string lib (string_to_bytes lib s ''utf8'') ''utf8'') =
          Inr (JObj [(''iv'', JStr (bytes_to_string lib (iv ep) ''base64'')),
                  (''tag'', JStr (bytes_to_string lib (tag ep) ''base64'')),
                  (''ciphertext'', JStr (bytes_to_string lib (ciphertext ep) ''base64''))])"
    by auto
  with b64 ne show ?thesis by simp
qed

lemma read_envelope_served:
  assumes "\<forall>bs. string_to_bytes lib (bytes_to_string lib bs ''base64'') ''base64'' = bs"
  shows "read_envelope lib (\<lambda>v. v)
           (JObj [(''iv'', JStr (bytes_to_string lib i ''base64'')),
                  (''ciphertext'', JStr (bytes_to_string lib c ''base64'')),
                  (''tag'', JStr (bytes_to_string lib t ''base64''))]) =
         Inr \<lparr>alg = ''AES-GCM'', iv = i, ciphertext = c, tag = t\<rparr>"
  using assms by (simp add: read_envelope_def buffer_from_def)

lemma toy_base64: "\<forall>bs. string_to_bytes toy_lib (bytes_to_string toy_lib bs ''base64'') ''base64'' = bs"
  using toy_codecs_lossless unfolding codecs_lossless_def by blast

lemma toy_stringify_envelope:
  "json_stringify toy_lib
     (JObj [(''iv'', JStr (bytes_to_string toy_lib (iv toy_envelope) ''base64'')),
            (''tag'', JStr (bytes_to_string toy_lib (tag toy_envelope) ''base64'')),
            (''ciphertext'', JStr (bytes_to_string toy_lib (ciphertext toy_envelope) ''base64''))]) =
   JStr (CHR ''o'' #
           frame ''iv'' @ frame (bytes_to_string toy_lib (iv toy_envelope) ''base64'') @
           frame ''tag'' @ frame (bytes_to_string toy_lib (tag toy_envelope) ''base64'') @
           frame ''ciphertext'' @
           frame (bytes_to_string toy_lib (ciphertext toy_envelope) ''base64''))"
  by (simp add: toy_lib_def toy_json_stringify_def)

lemma demo_setMockResult:
  "setMockResult toy_lib demo_jid toy_envelope demo_submitted =
     (Inr (), demo_submitted\<lparr>mockJobs := (mockJobs demo_submitted)(demo_jid \<mapsto> demo_completed_record)\<rparr>)"
  using setMockResult_stored [OF demo_submitted_record toy_stringify_envelope]
  by (simp add: demo_completed_record_def demo_reference_def)

lemma demo_completed_stored: "mockJobs demo_completed demo_jid = Some demo_completed_record"
  by (simp add: demo_completed_def demo_setMockResult)

lemma demo_run2:
  "run toy_lib toy_cfg initial_state [OpRegisterJobType toy_job, demo_submit] = demo_submitted"
  by (simp add: demo_submitted_def demo_registered_def)

lemma createState_offline:
  assumes "schemaRegistry st schemaId = Some schema"
    and "encryptPayload lib (randomBytes env 12) plain (normalizeKey lib seed) = Inr enc"
  shows "fst (createState lib env cfg schemaId owner plain seed None st) =
           Inr (\<lparr>handle_id = spec_derive_id lib (hashCommitment lib (Bytes (ciphertext enc))) owner,
                 handle_commitment = hashCommitment lib (Bytes (ciphertext enc)),
                 handle_owner = owner\<rparr>, enc)"
  using assms by (simp add: createState_def getSchema_def Let_def spec_derive_id_def)

lemma demo_schema: "schemaRegistry demo_schema_state ''s1'' = Some toy_schema"
  by (simp add: demo_schema_state_def defineSchema_def toy_schema_def)

lemma demo_createState:
  "fst (createState toy_lib toy_env toy_cfg ''s1'' ''owner1'' toy_value toy_key None
          demo_schema_state) =
     Inr (\<lparr>handle_id = demo_jid,
           handle_commitment = ''7739393939387d7b6d7a3939393939386974716b6d0101010101010101010101'',
           handle_owner = ''owner1''\<rparr>, toy_envelope)"
  using createState_offline [OF demo_schema, of toy_lib toy_env toy_value toy_key toy_envelope
      toy_cfg "''owner1''"]
  by (simp add: toy_env_nonce toy_key_normal toy_envelope_eq demo_commitment demo_id)

lemma registry_submitted: "registry demo_submitted ''score'' = Some toy_job"
  by (simp add: demo_submitted_def demo_submit_def demo_submitJob registry_demo)

lemma registry_completed: "registry demo_completed ''score'' = Some toy_job"
  by (simp add: demo_completed_def demo_setMockResult registry_submitted)

lemma demo_resubmit:
  "submitJob toy_lib toy_env toy_cfg ''score'' ''owner1'' toy_value toy_key None demo_completed =
     (Inr \<lparr>jobId = demo_jid, txSig = None\<rparr>,
      demo_completed\<lparr>mockJobs := (mockJobs demo_completed)(demo_jid \<mapsto> demo_pending_record)\<rparr>)"
  using submitJob_offline [OF registry_completed _ toy_offline, of toy_lib toy_env toy_value
      toy_key toy_envelope "''owner1''"]
  by (simp add: toy_env_nonce toy_key_normal toy_envelope_eq demo_commitment demo_id demo_pending)

lemma toy_envelope_decrypts: "decryptPayload toy_lib toy_envelope toy_key = Inr toy_value"
proof -
  have "length toy_key = 32" "length toy_nonce = 12" by (simp_all add: toy_key_def toy_nonce_def)
  moreover have "json_serializable toy_lib toy_value" by code_simp
  ultimately show ?thesis
    using roundtrip [OF toy_aead_correct, of toy_key toy_nonce toy_value]
    by (simp add: toy_envelope_eq)
qed

lemma toy_envelope_wrong_key:
  "fails_with_CryptoError (decryptPayload toy_lib toy_envelope (deriveKeyFromSeed toy_lib toy_key))"
  by code_simp

lemma toy_key_digest: "deriveKeyFromSeed toy_lib toy_key \<noteq> toy_key"
  by code_simp

text \<open>On the stand-in platform an instruction with a JSON text is signed and sent.\<close>

lemma toy_sendOperation:
  assumes "json_stringify toy_lib operation = JStr text"
    and "take 5 (rpcEndpoint cfg) = ''http:''"
  shows "fst (sendOperation toy_lib toy_env cfg pid toy_wallet operation st) = Inr ''signature''"
  using assms
  by (simp add: sendOperation_def getConnection_def toy_env_def toy_newConnection_def
      buffer_from_def createInstruction_def buildAndSendTransaction_def toy_wallet_def
      log_effect_def Let_def split: option.splits)

lemma toy_stringify_strings:
  "list_all (\<lambda>kv. frame_member kv \<noteq> None) kvs \<Longrightarrow>
   \<exists>text. json_stringify toy_lib (JObj kvs) = JStr text"
  by (simp add: toy_lib_def toy_json_stringify_def)

lemma toy_accepts:
  assumes "list_all (\<lambda>kv. frame_member kv \<noteq> None) kvs"
  shows "fst (sendOperation toy_lib toy_env toy_chain_cfg pid toy_wallet (JObj kvs) st) =
           Inr ''signature''"
proof -
  from toy_stringify_strings [OF assms] obtain s where
    "json_stringify toy_lib (JObj kvs) = JStr s" by blast
  moreover have "take 5 (rpcEndpoint toy_chain_cfg) = ''http:''"
    by (simp add: toy_chain_cfg_def toy_cfg_def)
  ultimately show ?thesis by (rule toy_sendOperation)
qed

lemma toy_chain_offline: "\<not> configured (provingServiceUrl toy_chain_cfg)"
  by (simp add: toy_chain_cfg_def toy_cfg_def)

lemma demo_submitJob_sent:
  "fst (submitJob toy_lib toy_env toy_chain_cfg ''score'' ''owner1'' toy_value toy_key
          (Some toy_wallet) demo_registered) =
     Inr \<lparr>jobId = demo_jid, txSig = Some ''signature''\<rparr>"
proof -
  have enc: "encryptPayload toy_lib (randomBytes toy_env 12) toy_value
               (normalizeKey toy_lib toy_key) = Inr toy_envelope"
    by (simp add: toy_env_nonce toy_key_normal toy_envelope_eq)
  have pid: "configured (computeProgramId toy_chain_cfg)"
    by (simp add: toy_chain_cfg_def)
  from submitJob_sent [OF registry_demo enc pid toy_accepts, of "''owner1''"]
  show ?thesis by (simp add: demo_commitment demo_id)
qed

subsection \<open>The claims at this run\<close>

text \<open>C7 at the run: the record is pending after the submission and completed after the setter.\<close>

theorem mock_store_statuses_witness:
  "mockJobs (run toy_lib toy_cfg initial_state [OpRegisterJobType toy_job, demo_submit]) demo_jid =
     Some demo_pending_record \<and>
   mock_record_ok demo_pending_record \<and>
   job_status demo_pending_record = PENDING \<and>
   fst (submitJob toy_lib toy_env toy_cfg ''score'' ''owner1'' toy_value toy_key None demo_registered) =
     Inr \<lparr>jobId = demo_jid, txSig = None\<rparr> \<and>
   mockJobs (step toy_lib toy_cfg (OpSetMockResult demo_jid toy_envelope) demo_submitted) demo_jid =
     Some demo_completed_record \<and>
   job_status demo_completed_record = COMPLETED \<and>
   job_resultRef demo_completed_record \<noteq> None"
proof -
  have a: "mockJobs (run toy_lib toy_cfg initial_state [OpRegisterJobType toy_job, demo_submit])
             demo_jid = Some demo_pending_record"
    by (simp only: demo_run2 demo_submitted_record)
  have b: "mockJobs (step toy_lib toy_cfg (OpSetMockResult demo_jid toy_envelope) demo_submitted)
             demo_jid = Some demo_completed_record"
    using demo_completed_stored by (simp add: demo_completed_def)
  have c: "job_status demo_completed_record \<noteq> job_status demo_pending_record"
    by (simp add: demo_completed_record_def demo_pending_record_def)
  from mock_store_statuses [where lib = toy_lib and cfg = toy_cfg
      and ops = "[OpRegisterJobType toy_job, demo_submit]" and st = demo_submitted
      and x = "OpSetMockResult demo_jid toy_envelope"]
    a b c demo_submitted_record
  show ?thesis
    by (simp add: demo_submitJob demo_completed_record_def demo_pending_record_def)
qed


text \<open>
  C7 as stated, at a second submission. After a job type was registered, a job submitted
  and its result set, the record is \<open>COMPLETED\<close>. Submitting the same input for the same
  owner under the same key and nonce gives the same ciphertext and the same id, and the
  record under that id is \<open>PENDING\<close> again, without a result: a transition that the
  test-only setter did not make.
\<close>

theorem resubmission_resets_status_counterexample:
  "run toy_lib toy_cfg initial_state
     [OpRegisterJobType toy_job, demo_submit, OpSetMockResult demo_jid toy_envelope] =
     demo_completed \<and>
   provingServiceUrl toy_cfg = None \<and>
   mockJobs demo_completed demo_jid = Some demo_completed_record \<and>
   job_status demo_completed_record = COMPLETED \<and>
   demo_submit = OpSubmitJob toy_env ''score'' ''owner1'' toy_value toy_key None \<and>
   mockJobs (step toy_lib toy_cfg demo_submit demo_completed) demo_jid =
     Some demo_pending_record \<and>
   job_status demo_pending_record = PENDING \<and>
   job_resultRef demo_pending_record = None"
proof -
  have "run toy_lib toy_cfg initial_state
     [OpRegisterJobType toy_job, demo_submit, OpSetMockResult demo_jid toy_envelope] =
     demo_completed"
    by (simp add: demo_completed_def demo_submitted_def demo_registered_def)
  moreover have "mockJobs (step toy_lib toy_cfg demo_submit demo_completed) demo_jid =
     Some demo_pending_record"
    by (simp add: demo_submit_def demo_resubmit)
  moreover have "job_status demo_completed_record = COMPLETED"
    by (simp add: demo_completed_record_def)
  moreover have "job_status demo_pending_record = PENDING \<and>
    job_resultRef demo_pending_record = None"
    by (simp add: demo_pending_record_def)
  moreover have "provingServiceUrl toy_cfg = None" by (simp add: toy_cfg_def)
  ultimately show ?thesis
    using demo_completed_stored demo_submit_def by simp
qed

text \<open>
  C2 as stated, at the input \<^verbatim>\<open>undefined\<close>: \<^verbatim>\<open>JSON.stringify\<close> returns \<^verbatim>\<open>undefined\<close>,
  \<^verbatim>\<open>Buffer.from\<close> throws on it inside the \<^verbatim>\<open>try\<close> of \<^verbatim>\<open>encryptPayload\<close>, and \<^verbatim>\<open>submitJob\<close>
  fails with the \<open>CryptoError\<close> instead of returning a job id.
\<close>

theorem submitJob_undefined_input_counterexample:
  "\<not> configured (provingServiceUrl toy_cfg) \<and>
   registry demo_registered ''score'' = Some toy_job \<and>
   fst (submitJob toy_lib toy_env toy_cfg ''score'' ''owner1'' JUndefined toy_key None
          demo_registered) =
     Inl (CryptoError
       ''encryptPayload failed: The first argument must be of type string or an instance of Buffer'')"
proof -
  have "encryptPayload toy_lib (randomBytes toy_env 12) JUndefined (normalizeKey toy_lib toy_key) =
          Inl (CryptoError
            ''encryptPayload failed: The first argument must be of type string or an instance of Buffer'')"
    by (simp add: toy_key_normal encryptPayload_def ensureKey_def buffer_from_def)
      (simp add: toy_key_def toy_lib_def toy_json_stringify_def)
  then show ?thesis
    by (simp add: toy_offline registry_demo submitJob_def)
qed

text \<open>
  C2 at a run that sends the instruction: a compute program id is configured and the
  wallet signs, the submission returns the transaction signature with the job id, and the
  result \<open>toy_result\<close> is encrypted under the digest of the seed.
\<close>

theorem mock_job_lifecycle_witness:
  "configured (computeProgramId toy_chain_cfg) \<and>
   fst (submitJob toy_lib toy_env toy_chain_cfg ''score'' ''owner1'' toy_value toy_key
          (Some toy_wallet) demo_registered) =
     Inr \<lparr>jobId = demo_jid, txSig = Some ''signature''\<rparr> \<and>
   (\<exists>out envelope.
     fst (submitJob toy_lib toy_env toy_chain_cfg ''score'' ''owner1'' toy_value toy_key
            (Some toy_wallet) demo_registered) = Inr out \<and>
     encryptPayload toy_lib toy_nonce toy_result (deriveKeyFromSeed toy_lib toy_key) = Inr envelope \<and>
     (let st1 = snd (submitJob toy_lib toy_env toy_chain_cfg ''score'' ''owner1'' toy_value toy_key
                       (Some toy_wallet) demo_registered);
          status1 = getJobStatus toy_env toy_chain_cfg (jobId out) st1;
          set2 = setMockResult toy_lib (jobId out) envelope (snd status1);
          status3 = getJobStatus toy_env toy_chain_cfg (jobId out) (snd set2);
          fetched = fetchResult toy_lib toy_env toy_chain_cfg (jobId out) toy_key (snd status3)
      in fst status1 = Inr (JStr ''PENDING'') \<and>
         fst set2 = Inr () \<and>
         fst status3 = Inr (JStr ''COMPLETED'') \<and>
         fst fetched = Inr toy_result))"
proof -
  have reg: "registry demo_registered ''score'' \<noteq> None" by (simp add: registry_demo)
  have accepted:
    "instruction_accepted toy_lib toy_env toy_chain_cfg (computeProgramId toy_chain_cfg)
       (Some toy_wallet)
       (JObj [(''op'', JStr ''submit_job''),
              (''jobId'', JStr (spec_derive_id toy_lib
                                 (hashCommitment toy_lib (Bytes (ciphertext enc))) ''owner1'')),
              (''commitment'', JStr (hashCommitment toy_lib (Bytes (ciphertext enc)))),
              (''type'', JStr ''score'')]) demo_registered" for enc
    by (simp add: instruction_accepted_def toy_accepts)
  have rnd: "length (randomBytes toy_env 12) = 12" by (simp add: toy_env_def)
  have input: "json_stringify toy_lib toy_value = JStr (CHR ''o'' # frame ''user'' @ frame ''alice'')"
    by (simp add: toy_lib_def toy_json_stringify_def toy_value_def)
  have nonce: "length toy_nonce = 12" by (simp add: toy_nonce_def)
  have result: "json_serializable toy_lib toy_result" by code_simp
  have pid: "configured (computeProgramId toy_chain_cfg)" by (simp add: toy_chain_cfg_def)
  from mock_job_lifecycle [OF toy_chain_offline reg toy_digest_32 toy_aead_correct
      toy_codecs_lossless accepted rnd input nonce result, where ?env1.0 = toy_env
      and ?env3.0 = toy_env and ?env4.0 = toy_env] pid demo_submitJob_sent
  show ?thesis by blast
qed

text \<open>
  C8 at the run: a state and a job with the same ciphertext and owner get the same id, and a
  second submission that derives the id again replaces the completed record.
\<close>

theorem id_derivation_witness:
  "fst (createState toy_lib toy_env toy_cfg ''s1'' ''owner1'' toy_value toy_key None
          demo_schema_state) =
     Inr (\<lparr>handle_id = demo_jid,
           handle_commitment = ''7739393939387d7b6d7a3939393939386974716b6d0101010101010101010101'',
           handle_owner = ''owner1''\<rparr>, toy_envelope) \<and>
   fst (submitJob toy_lib toy_env toy_cfg ''score'' ''owner1'' toy_value toy_key None
          demo_registered) = Inr \<lparr>jobId = demo_jid, txSig = None\<rparr> \<and>
   demo_jid = spec_derive_id toy_lib
     ''7739393939387d7b6d7a3939393939386974716b6d0101010101010101010101'' ''owner1'' \<and>
   mockJobs demo_completed demo_jid = Some demo_completed_record \<and>
   fst (submitJob toy_lib toy_env toy_cfg ''score'' ''owner1'' toy_value toy_key None
          demo_completed) = Inr \<lparr>jobId = demo_jid, txSig = None\<rparr> \<and>
   mockJobs (snd (submitJob toy_lib toy_env toy_cfg ''score'' ''owner1'' toy_value toy_key None
                    demo_completed)) demo_jid = Some demo_pending_record \<and>
   length demo_jid = 32"
proof -
  define h where "h = \<lparr>handle_id = demo_jid,
           handle_commitment = ''7739393939387d7b6d7a3939393939386974716b6d0101010101010101010101'',
           handle_owner = ''owner1''\<rparr>"
  have created: "fst (createState toy_lib toy_env toy_cfg ''s1'' ''owner1'' toy_value toy_key None
          demo_schema_state) = Inr (h, toy_envelope)"
    by (simp add: demo_createState h_def)
  from id_derivation [where lib = toy_lib and env = toy_env and cfg = toy_cfg
      and schemaId = "''s1''" and owner = "''owner1''" and plain = toy_value and seed = toy_key
      and w = None and st = demo_schema_state and e = toy_envelope and h = h] created
  have "handle_id h = spec_derive_id toy_lib (handle_commitment h) (handle_owner h)"
    by blast
  then have derived: "demo_jid = spec_derive_id toy_lib
     ''7739393939387d7b6d7a3939393939386974716b6d0101010101010101010101'' ''owner1''"
    by (simp add: h_def)
  have "length demo_jid = 32" by (simp add: demo_jid_def)
  with derived show ?thesis
    by (simp only: demo_createState demo_submitJob demo_resubmit demo_completed_stored) simp
qed


text \<open>
  C3 at the run: for the 32-byte seed \<open>toy_key\<close> and the envelope encrypted under it, the
  coordinator path returns the value and the mock path fails to decrypt; \<^verbatim>\<open>createState\<close>
  and \<^verbatim>\<open>updateState\<close>, with a program id and a signing wallet, return that envelope, which
  \<^verbatim>\<open>decryptWithSeed\<close> opens with the seed.
\<close>

theorem fetchResult_key_derivations_witness:
  "length toy_key = 32 \<and>
   deriveKeyFromSeed toy_lib toy_key \<noteq> toy_key \<and>
   normalizeKey toy_lib toy_key = toy_key \<and>
   normalizeKey toy_lib toy_key \<noteq> deriveKeyFromSeed toy_lib toy_key \<and>
   fst (fetchResult toy_lib toy_env toy_cfg demo_jid toy_key demo_completed) =
     decryptPayload toy_lib toy_envelope (deriveKeyFromSeed toy_lib toy_key) \<and>
   fails_with_CryptoError (fst (fetchResult toy_lib toy_env toy_cfg demo_jid toy_key demo_completed)) \<and>
   fst (fetchResult toy_lib toy_coordinator_env toy_coordinator_cfg demo_jid toy_key demo_completed) =
     decryptPayload toy_lib toy_envelope (normalizeKey toy_lib toy_key) \<and>
   fst (fetchResult toy_lib toy_coordinator_env toy_coordinator_cfg demo_jid toy_key demo_completed) =
     Inr toy_value \<and>
   encryptPayload toy_lib (randomBytes toy_env 12) toy_value (normalizeKey toy_lib toy_key) =
     Inr toy_envelope \<and>
   configured (programId toy_chain_cfg) \<and>
   fst (createState toy_lib toy_env toy_chain_cfg ''s1'' ''owner1'' toy_value toy_key
          (Some toy_wallet) demo_schema_state) =
     Inr (\<lparr>handle_id = demo_jid,
           handle_commitment = ''7739393939387d7b6d7a3939393939386974716b6d0101010101010101010101'',
           handle_owner = ''owner1''\<rparr>, toy_envelope) \<and>
   fst (updateState toy_lib toy_env toy_chain_cfg ''s1'' ''owner1'' toy_value toy_key
          (Some ''state-1'') ''previous'' (Some toy_wallet) demo_schema_state) =
     Inr (\<lparr>handle_id = ''state-1'',
           handle_commitment = ''7739393939387d7b6d7a3939393939386974716b6d0101010101010101010101'',
           handle_owner = ''owner1''\<rparr>, toy_envelope) \<and>
   decryptWithSeed toy_lib toy_envelope toy_key = Inr toy_value"
proof -
  define payload where "payload =
    JObj [(''iv'', JStr (bytes_to_string toy_lib (iv toy_envelope) ''base64'')),
          (''tag'', JStr (bytes_to_string toy_lib (tag toy_envelope) ''base64'')),
          (''ciphertext'', JStr (bytes_to_string toy_lib (ciphertext toy_envelope) ''base64''))]"
  define served where "served =
    JObj [(''iv'', JStr (bytes_to_string toy_lib (iv toy_envelope) ''base64'')),
          (''ciphertext'', JStr (bytes_to_string toy_lib (ciphertext toy_envelope) ''base64'')),
          (''tag'', JStr (bytes_to_string toy_lib (tag toy_envelope) ''base64''))]"
  define resp where "resp = \<lparr>ok = True, json = Inr served\<rparr>"
  have k: "length toy_key = 32" by (simp add: toy_key_def)
  note ref = stored_reference [OF toy_codecs_lossless toy_stringify_envelope]
  have ref1: "configured (job_resultRef demo_completed_record)"
    using ref by (simp add: demo_completed_record_def demo_reference_def)
  have ref2: "json_parse toy_lib
      (bytes_to_string toy_lib
         (string_to_bytes toy_lib (the (job_resultRef demo_completed_record)) ''base64'') ''utf8'') =
        Inr payload"
    using ref by (simp add: demo_completed_record_def demo_reference_def payload_def)
  have env1: "read_envelope toy_lib (\<lambda>v. epOr (epOr v)) payload = Inr toy_envelope"
    unfolding payload_def by (simp only: read_envelope_stored [OF toy_base64]) (simp add: toy_envelope_def)
  have c1: "configured (provingServiceUrl toy_coordinator_cfg)"
    by (simp add: toy_coordinator_cfg_def)
  have c2: "fetch toy_coordinator_env
      (the (provingServiceUrl toy_coordinator_cfg) @ ''/job-result/'' @ demo_jid) None = Inr resp"
    by (simp add: toy_coordinator_env_def resp_def served_def toy_lib_def)
  have c3: "ok resp" "json resp = Inr served" by (simp_all add: resp_def)
  have env2: "read_envelope toy_lib (\<lambda>v. v) served = Inr toy_envelope"
    unfolding served_def by (simp only: read_envelope_served [OF toy_base64]) (simp add: toy_envelope_def)
  have schema: "schemaRegistry demo_schema_state ''s1'' \<noteq> None"
    by (simp add: demo_schema)
  have enc: "encryptPayload toy_lib (randomBytes toy_env 12) toy_value
               (normalizeKey toy_lib toy_key) = Inr toy_envelope"
    by (simp add: toy_env_nonce toy_key_normal toy_envelope_eq)
  have pid: "configured (programId toy_chain_cfg)" by (simp add: toy_chain_cfg_def)
  have sent1: "instruction_accepted toy_lib toy_env toy_chain_cfg (programId toy_chain_cfg)
      (Some toy_wallet)
      (JObj [(''op'', JStr ''create''),
             (''commitment'', JStr (hashCommitment toy_lib (Bytes (ciphertext toy_envelope))))])
      demo_schema_state"
    by (simp add: instruction_accepted_def toy_accepts)
  have sent2: "instruction_accepted toy_lib toy_env toy_chain_cfg (programId toy_chain_cfg)
      (Some toy_wallet)
      (JObj [(''op'', JStr ''update''), (''prev'', JStr ''previous''),
             (''next'', JStr (hashCommitment toy_lib (Bytes (ciphertext toy_envelope))))])
      demo_schema_state"
    by (simp add: instruction_accepted_def toy_accepts)
  from fetchResult_key_derivations [where lib = toy_lib and cfg = toy_cfg and st = demo_completed
      and jid = demo_jid and job = demo_completed_record and payload = payload
      and ep = toy_envelope and env = toy_env and s = toy_key and cfg' = toy_coordinator_cfg
      and env' = toy_coordinator_env and resp = resp and j = served and ep' = toy_envelope
      and pst = demo_schema_state and schemaId = "''s1''" and penv = toy_env
      and plain = toy_value and e = toy_envelope and pcfg = toy_chain_cfg
      and w = "Some toy_wallet" and owner = "''owner1''" and prev = "''previous''"
      and sid = "Some ''state-1''"]
    toy_offline demo_completed_stored ref1 ref2 env1 c1 c2 c3 env2 k toy_key_digest
    schema enc sent1 sent2
  have "fst (fetchResult toy_lib toy_env toy_cfg demo_jid toy_key demo_completed) =
          decryptPayload toy_lib toy_envelope (deriveKeyFromSeed toy_lib toy_key)"
    and "fst (fetchResult toy_lib toy_coordinator_env toy_coordinator_cfg demo_jid toy_key
               demo_completed) = decryptPayload toy_lib toy_envelope (normalizeKey toy_lib toy_key)"
    and "normalizeKey toy_lib toy_key = toy_key"
    and "normalizeKey toy_lib toy_key \<noteq> deriveKeyFromSeed toy_lib toy_key"
    and "decryptWithSeed toy_lib toy_envelope toy_key =
           decryptPayload toy_lib toy_envelope (normalizeKey toy_lib toy_key)"
    and "fst (createState toy_lib toy_env toy_chain_cfg ''s1'' ''owner1'' toy_value toy_key
          (Some toy_wallet) demo_schema_state) =
        Inr (\<lparr>handle_id = spec_derive_id toy_lib
                  (hashCommitment toy_lib (Bytes (ciphertext toy_envelope))) ''owner1'',
              handle_commitment = hashCommitment toy_lib (Bytes (ciphertext toy_envelope)),
              handle_owner = ''owner1''\<rparr>, toy_envelope)"
    and "fst (updateState toy_lib toy_env toy_chain_cfg ''s1'' ''owner1'' toy_value toy_key
          (Some ''state-1'') ''previous'' (Some toy_wallet) demo_schema_state) =
        Inr (\<lparr>handle_id = ''state-1'',
              handle_commitment = hashCommitment toy_lib (Bytes (ciphertext toy_envelope)),
              handle_owner = ''owner1''\<rparr>, toy_envelope)"
    by simp_all
  then show ?thesis
    using k toy_key_digest toy_envelope_decrypts toy_envelope_wrong_key enc pid
    by (simp add: demo_commitment demo_id)
qed

end
